theory Spec2Isabelle
  imports Main
begin

section \<open>Strings\<close>

text \<open>
  Text is a list of 8-bit characters holding the UTF-8 encoding of the JavaScript
  string. The built-ins of \<^verbatim>\<open>String.prototype\<close> that \<^verbatim>\<open>src/index.tsx\<close>
  calls are written out on that representation.
\<close>

definition startsWith :: "string \<Rightarrow> string \<Rightarrow> bool" where
  "startsWith s p = (take (length p) s = p)"

fun includes_str :: "string \<Rightarrow> string \<Rightarrow> bool" where
  "includes_str [] p = (p = [])"
| "includes_str (c # cs) p = (startsWith (c # cs) p \<or> includes_str cs p)"

text \<open>
  \<^verbatim>\<open>substring(n)\<close> counts UTF-16 code units. The source calls it with \<open>n = 7\<close> after
  it has found the seven ASCII characters of the command prefix at the head of the string,
  where code units and bytes coincide.
\<close>

definition substring :: "string \<Rightarrow> nat \<Rightarrow> string" where
  "substring s n = drop n s"

text \<open>
  \<^verbatim>\<open>toLowerCase\<close> on the letters A to Z. The source uses it only to compare the head of
  the text with the ASCII literal \<^verbatim>\<open>/video \<close>, and no character outside A to Z has a
  letter of that literal as its lower-case mapping (U+0130 maps to \<^verbatim>\<open>i\<close> followed by
  U+0307, which the literal does not contain).
\<close>

definition toLower :: "char \<Rightarrow> char" where
  "toLower c =
     (case map_of (zip ''ABCDEFGHIJKLMNOPQRSTUVWXYZ'' ''abcdefghijklmnopqrstuvwxyz'') c of
        Some l \<Rightarrow> l
      | None \<Rightarrow> c)"

definition toLowerCase :: "string \<Rightarrow> string" where
  "toLowerCase s = map toLower s"

text \<open>
  The characters \<^verbatim>\<open>trim\<close> removes (ECMAScript WhiteSpace and LineTerminator), each as
  its UTF-8 byte sequence: U+0009 to U+000D, U+0020, U+00A0, U+1680, U+2000 to U+200A,
  U+2028, U+2029, U+202F, U+205F, U+3000, U+FEFF.
\<close>

definition whitespace :: "string list" where
  "whitespace =
     [[CHR 0x09], [CHR 0x0A], [CHR 0x0B], [CHR 0x0C], [CHR 0x0D], [CHR 0x20],
      [CHR 0xC2, CHR 0xA0],
      [CHR 0xE1, CHR 0x9A, CHR 0x80],
      [CHR 0xE2, CHR 0x80, CHR 0x80], [CHR 0xE2, CHR 0x80, CHR 0x81],
      [CHR 0xE2, CHR 0x80, CHR 0x82], [CHR 0xE2, CHR 0x80, CHR 0x83],
      [CHR 0xE2, CHR 0x80, CHR 0x84], [CHR 0xE2, CHR 0x80, CHR 0x85],
      [CHR 0xE2, CHR 0x80, CHR 0x86], [CHR 0xE2, CHR 0x80, CHR 0x87],
      [CHR 0xE2, CHR 0x80, CHR 0x88], [CHR 0xE2, CHR 0x80, CHR 0x89],
      [CHR 0xE2, CHR 0x80, CHR 0x8A],
      [CHR 0xE2, CHR 0x80, CHR 0xA8], [CHR 0xE2, CHR 0x80, CHR 0xA9],
      [CHR 0xE2, CHR 0x80, CHR 0xAF],
      [CHR 0xE2, CHR 0x81, CHR 0x9F],
      [CHR 0xE3, CHR 0x80, CHR 0x80],
      [CHR 0xEF, CHR 0xBB, CHR 0xBF]]"

text \<open>\<open>strip ps s\<close> removes from the head of \<open>s\<close> every leading occurrence of a sequence of \<open>ps\<close>.\<close>

function strip :: "string list \<Rightarrow> string \<Rightarrow> string" where
  "strip ps s =
     (case find (\<lambda>p. p \<noteq> [] \<and> startsWith s p) ps of
        None \<Rightarrow> s
      | Some p \<Rightarrow> strip ps (drop (length p) s))"
  by pat_completeness auto
termination
proof (relation "measure (\<lambda>(ps, s). length s)")
  show "wf (measure (\<lambda>(ps, s). length s))" by simp
next
  fix ps :: "string list" and s p :: string
  assume "find (\<lambda>p. p \<noteq> [] \<and> startsWith s p) ps = Some p"
  then have "p \<noteq> []" and "take (length p) s = p"
    by (auto simp: find_Some_iff startsWith_def)
  then have "s \<noteq> []" and "0 < length p" by auto
  then show "((ps, drop (length p) s), (ps, s)) \<in> measure (\<lambda>(ps, s). length s)"
    by simp
qed

declare strip.simps [simp del]

definition trimStart :: "string \<Rightarrow> string" where
  "trimStart s = strip whitespace s"

definition trimEnd :: "string \<Rightarrow> string" where
  "trimEnd s = rev (strip (map rev whitespace) (rev s))"

definition trim :: "string \<Rightarrow> string" where
  "trim s = trimEnd (trimStart s)"

text \<open>\<^verbatim>\<open>Number.prototype.toString\<close> on an integer: decimal digits, with a sign when negative.\<close>

function digits :: "nat \<Rightarrow> string" where
  "digits n =
     (if n < 10 then [''0123456789'' ! n]
      else digits (n div 10) @ [''0123456789'' ! (n mod 10)])"
  by pat_completeness auto
termination
  by (relation "measure (\<lambda>n. n)") auto

declare digits.simps [simp del]

definition toString :: "int \<Rightarrow> string" where
  "toString i = (if i < 0 then CHR ''-'' # digits (nat (- i)) else digits (nat i))"


section \<open>Data model\<close>

datatype sender = User | Ai

text \<open>
  \<^verbatim>\<open>interface Message\<close>. A field the interface marks optional is an \<open>option\<close>:
  \<open>None\<close> is \<^verbatim>\<open>undefined\<close> (or \<^verbatim>\<open>null\<close>, for \<open>m_imagePreview\<close>).
\<close>

record message =
  m_id :: string
  m_text :: string
  m_sender :: sender
  m_imagePreview :: "string option"
  m_videoUrl :: "string option"
  m_isLoading :: "bool option"
  m_streamingText :: "string option"
  m_isError :: "bool option"

text \<open>
  A \<^verbatim>\<open>File\<close> the user attached: its MIME type, and the base64 payload that
  \<^verbatim>\<open>FileReader.readAsDataURL\<close> delivers after the comma of the data URL. The read
  is taken to complete.
\<close>

record jsfile =
  f_type :: string
  f_data :: string

datatype part = InlineData string string | Text string

text \<open>\<^verbatim>\<open>fileToGenerativePart\<close>\<close>

definition fileToGenerativePart :: "jsfile \<Rightarrow> part" where
  "fileToGenerativePart f = InlineData (f_data f) (f_type f)"

text \<open>
  What the program does that is visible outside a function or to its callers, in order:
  every update of the store, with the store it produces, every call to a remote service,
  the key-selection capability or a timer, and the entry of either protocol. An update of
  the store stands where \<^verbatim>\<open>setMessages\<close> is called; the updates of the
  \<^verbatim>\<open>for await\<close> loop, which depend on when React runs them, stand in that loop in
  the order React runs them.
\<close>

datatype event =
    SetMessages "message list"
  | Call_sendChatMessage string "jsfile option"
  | Call_generateVideo string
  | SendMessageStream "part list"
  | HasSelectedApiKey
  | OpenSelectKey
  | NewGoogleGenAI
  | GenerateVideos string
  | SetTimeout nat
  | GetVideosOperation

text \<open>
  The state of the \<^verbatim>\<open>App\<close> component (its \<^verbatim>\<open>useState\<close> cells), and the events so far.
  \<open>chat\<close> is the opaque session handle, \<open>None\<close> while it is \<^verbatim>\<open>null\<close>.
\<close>

record app =
  messages :: "message list"
  input :: string
  imageFile :: "jsfile option"
  imagePreview :: "string option"
  isLoading :: bool
  chat :: "unit option"
  error :: "string option"
  isRecording :: bool
  trace :: "event list"

section \<open>The environment\<close>

text \<open>
  A value caught by \<^verbatim>\<open>catch (e)\<close>: an \<^verbatim>\<open>Error\<close> with its message, \<^verbatim>\<open>null\<close> or
  \<^verbatim>\<open>undefined\<close>, or any other value, given by its \<^verbatim>\<open>String(e)\<close>.
\<close>

datatype thrown = ErrorObject string | NullOrUndefined | NonError string

text \<open>What an awaited promise does: it resolves, it rejects, or it stays pending for ever.\<close>

datatype 'a reply = Resolves 'a | Rejects thrown | NeverSettles

text \<open>
  The response stream of \<^verbatim>\<open>chat.sendMessageStream\<close>: for each chunk it delivers,
  in order, the string that \<^verbatim>\<open>accumulatedText += chunk.text\<close> appends (the text of the
  chunk; the word \<^verbatim>\<open>undefined\<close> for a chunk without one), and then how it ends: it is
  exhausted, it throws, or it never delivers anything again.
\<close>

datatype stream_end = Exhausted | Fails thrown | Stalls

datatype stream = Stream "string list" stream_end

text \<open>
  A video operation: \<^verbatim>\<open>done\<close>; when \<^verbatim>\<open>error\<close> is there, the message that
  \<^verbatim>\<open>new Error(operation.error.message)\<close> carries; and
  \<^verbatim>\<open>response?.generatedVideos?.[0]?.video?.uri\<close>, \<open>None\<close> when a link of that chain is
  missing.
\<close>

record operation =
  op_done :: bool
  op_error :: "string option"
  op_uri :: "string option"

text \<open>\<^verbatim>\<open>window.aistudio\<close>, when the page has it.\<close>

record aistudio =
  hasSelectedApiKey :: "bool reply"
  openSelectKey :: "unit reply"

text \<open>
  Everything the outside world answers during one call of \<^verbatim>\<open>handleSendMessage\<close>:
  the two readings of \<^verbatim>\<open>Date.now()\<close>, the chat service, the renders of React while
  the response streams, the key-selection capability, the constructor of the client
  (\<open>Some e\<close> when it throws \<open>e\<close>), the video service with its answers to the successive
  polls, and \<^verbatim>\<open>process.env.API_KEY\<close>. A poll that the list has no answer for never
  settles.

  React does not run the function passed to \<^verbatim>\<open>setMessages\<close> at the call: it queues
  it, and runs the queued functions in the order of the calls at its next render (one
  queued while nothing is pending it may run at the call, which for the store is a render
  right after the call). \<open>render_after\<close> lists the numbers \<open>n\<close> such that React runs the
  queued functions between the \<open>n\<close>-th chunk of the response stream and what the stream
  does next; after the other chunks the stream goes on first. When the stream has ended,
  thrown or stalled, React gets to render.
\<close>

record env =
  now_user :: int
  now_ai :: int
  sendMessageStream :: "stream reply"
  render_after :: "nat list"
  window_aistudio :: "aistudio option"
  newGoogleGenAI :: "thrown option"
  generateVideos :: "operation reply"
  getVideosOperation :: "operation reply list"
  API_KEY :: string

text \<open>How an \<^verbatim>\<open>async\<close> function leaves: its promise resolves, or it never does.\<close>

datatype status = Returned | Pending

text \<open>How a \<^verbatim>\<open>try\<close> block leaves: normally, by a throw, or never.\<close>

datatype 'a result = Ok 'a | Throw thrown | Hang

section \<open>The Conversation Store\<close>

definition emit :: "event \<Rightarrow> app \<Rightarrow> app" where
  "emit e w = w\<lparr>trace := trace w @ [e]\<rparr>"

definition setMessages :: "(message list \<Rightarrow> message list) \<Rightarrow> app \<Rightarrow> app" where
  "setMessages f w =
     (let ms = f (messages w) in w\<lparr>messages := ms, trace := trace w @ [SetMessages ms]\<rparr>)"

text \<open>\<^verbatim>\<open>setMessages(prev => [...prev, m])\<close>\<close>

definition append_message :: "message \<Rightarrow> app \<Rightarrow> app" where
  "append_message m w = setMessages (\<lambda>prev. prev @ [m]) w"

text \<open>\<^verbatim>\<open>setMessages(prev => prev.map(msg => msg.id === k ? f(msg) : msg))\<close>, with
  \<open>map_by_id k f\<close> for the function it passes.\<close>

definition map_by_id :: "string \<Rightarrow> (message \<Rightarrow> message) \<Rightarrow> message list \<Rightarrow> message list" where
  "map_by_id k f prev = map (\<lambda>msg. if m_id msg = k then f msg else msg) prev"

definition update_message :: "string \<Rightarrow> (message \<Rightarrow> message) \<Rightarrow> app \<Rightarrow> app" where
  "update_message k f w = setMessages (map_by_id k f) w"

text \<open>The initial value of the component's state.\<close>

definition init_message :: message where
  "init_message =
     \<lparr>m_id = ''init'',
      m_text = ''Hello! I'm Aura, your multimodal AI assistant. I can chat, understand images, and create videos. Try asking me something, or type `/video a cat playing a futuristic piano` to see what I can do!'',
      m_sender = Ai, m_imagePreview = None, m_videoUrl = None, m_isLoading = Some False,
      m_streamingText = None, m_isError = None\<rparr>"

definition init_app :: app where
  "init_app =
     \<lparr>messages = [init_message], input = [], imageFile = None, imagePreview = None,
      isLoading = False, chat = None, error = None, isRecording = False, trace = []\<rparr>"

definition removeImage :: "app \<Rightarrow> app" where
  "removeImage w = w\<lparr>imageFile := None, imagePreview := None\<rparr>"

section \<open>Chat Protocol\<close>

text \<open>
  The function that the \<^verbatim>\<open>for await\<close> loop passes to \<^verbatim>\<open>setMessages\<close> reads the
  variable \<^verbatim>\<open>accumulatedText\<close>, which the loop goes on assigning: it writes the text
  that the variable holds when React runs it, not the one it held at the call. Every other
  function the source passes to \<^verbatim>\<open>setMessages\<close> reads, besides \<^verbatim>\<open>prev\<close>, only
  what no longer changes, so that it gives the same store whenever React runs it.

  \<open>run_queued\<close> is React running \<open>queued\<close> functions of the loop while the variable
  holds \<open>accumulatedText\<close>.
\<close>

fun run_queued :: "string \<Rightarrow> string \<Rightarrow> nat \<Rightarrow> app \<Rightarrow> app" where
  "run_queued aiMessageId accumulatedText 0 w = w"
| "run_queued aiMessageId accumulatedText (Suc queued) w =
     run_queued aiMessageId accumulatedText queued
       (update_message aiMessageId
          (\<lambda>msg. msg\<lparr>m_streamingText := Some accumulatedText\<rparr>) w)"

text \<open>
  The \<^verbatim>\<open>for await\<close> loop of \<^verbatim>\<open>sendChatMessage\<close>, with the number of chunks
  \<open>received\<close> so far and the number of its functions that React has \<open>queued\<close> and not
  run yet. Each round adds the chunk to \<^verbatim>\<open>accumulatedText\<close> and queues one more
  function; React runs the queue before the next round if it renders after this chunk.
  What is still queued when the loop is left runs at the render that follows, before
  the function that the source queues after the loop.
\<close>

fun for_await ::
  "string \<Rightarrow> nat list \<Rightarrow> string list \<Rightarrow> nat \<Rightarrow> nat \<Rightarrow> string \<Rightarrow> app \<Rightarrow> string \<times> app" where
  "for_await aiMessageId renders [] received queued accumulatedText w =
     (accumulatedText, run_queued aiMessageId accumulatedText queued w)"
| "for_await aiMessageId renders (chunk # rest) received queued accumulatedText w =
     (if Suc received \<in> set renders
      then for_await aiMessageId renders rest (Suc received) 0 (accumulatedText @ chunk)
             (run_queued aiMessageId (accumulatedText @ chunk) (Suc queued) w)
      else for_await aiMessageId renders rest (Suc received) (Suc queued)
             (accumulatedText @ chunk) w)"

text \<open>The \<^verbatim>\<open>catch\<close> block of \<^verbatim>\<open>sendChatMessage\<close>.\<close>

definition chat_catch :: "string \<Rightarrow> thrown \<Rightarrow> app \<Rightarrow> app" where
  "chat_catch aiMessageId e w =
     (let errorMessage =
            (case e of ErrorObject message \<Rightarrow> message | _ \<Rightarrow> ''An unknown error occurred.'')
      in update_message aiMessageId
           (\<lambda>msg. msg\<lparr>m_text := ''Sorry, I ran into an error: '' @ errorMessage,
                       m_isError := Some True, m_isLoading := Some False\<rparr>) w)"

definition sendChatMessage :: "env \<Rightarrow> string \<Rightarrow> jsfile option \<Rightarrow> app \<Rightarrow> status \<times> app" where
  "sendChatMessage env prompt file w0 =
     (let w = emit (Call_sendChatMessage prompt file) w0 in
      if chat w = None then (Returned, w\<lparr>error := Some ''Chat session is not initialized.''\<rparr>)
      else
        let aiMessageId = toString (now_ai env + 1);
            w1 = append_message
                   \<lparr>m_id = aiMessageId, m_text = [], m_sender = Ai, m_imagePreview = None,
                    m_videoUrl = None, m_isLoading = Some True, m_streamingText = Some [],
                    m_isError = None\<rparr> w;
            parts = (case file of Some f \<Rightarrow> [fileToGenerativePart f] | None \<Rightarrow> [])
                    @ (if prompt \<noteq> [] then [Text prompt] else []);
            w2 = emit (SendMessageStream parts) w1
        in case sendMessageStream env of
             Rejects e \<Rightarrow> (Returned, chat_catch aiMessageId e w2)
           | NeverSettles \<Rightarrow> (Pending, w2)
           | Resolves (Stream chunks fin) \<Rightarrow>
               (let (accumulatedText, w3) =
                      for_await aiMessageId (render_after env) chunks 0 0 [] w2 in
                case fin of
                  Exhausted \<Rightarrow>
                    (Returned,
                     update_message aiMessageId
                       (\<lambda>msg. msg\<lparr>m_text := accumulatedText, m_streamingText := None,
                                   m_isLoading := Some False\<rparr>) w3)
                | Fails e \<Rightarrow> (Returned, chat_catch aiMessageId e w3)
                | Stalls \<Rightarrow> (Pending, w3)))"


section \<open>Video Generation Protocol\<close>

text \<open>
  The \<^verbatim>\<open>while (!operation.done)\<close> loop of \<^verbatim>\<open>generateVideo\<close>: a timer of 10000 ms,
  then one \<^verbatim>\<open>getVideosOperation\<close>, whose answer is the head of the list.
\<close>

fun poll_loop :: "operation \<Rightarrow> operation reply list \<Rightarrow> app \<Rightarrow> operation result \<times> app" where
  "poll_loop operation [] w =
     (if op_done operation then (Ok operation, w)
      else (Hang, emit GetVideosOperation (emit (SetTimeout 10000) w)))"
| "poll_loop operation (r # rest) w =
     (if op_done operation then (Ok operation, w)
      else
        let w1 = emit GetVideosOperation (emit (SetTimeout 10000) w)
        in case r of
             Resolves operation' \<Rightarrow> poll_loop operation' rest w1
           | Rejects e \<Rightarrow> (Throw e, w1)
           | NeverSettles \<Rightarrow> (Hang, w1))"

text \<open>The key-selection step at the head of the \<^verbatim>\<open>try\<close> block of \<^verbatim>\<open>generateVideo\<close>.\<close>

definition select_key :: "env \<Rightarrow> string \<Rightarrow> app \<Rightarrow> unit result \<times> app" where
  "select_key env aiMessageId w =
     (case window_aistudio env of
        None \<Rightarrow> (Ok (), w)
      | Some a \<Rightarrow>
          (let w1 = emit HasSelectedApiKey w in
           case hasSelectedApiKey a of
             Rejects e \<Rightarrow> (Throw e, w1)
           | NeverSettles \<Rightarrow> (Hang, w1)
           | Resolves selected \<Rightarrow>
               (if selected then (Ok (), w1)
                else
                  (let w2 = update_message aiMessageId
                             (\<lambda>m. m\<lparr>m_text := ''Please select an API key to generate videos.''\<rparr>) w1;
                       w3 = emit OpenSelectKey w2
                   in (case openSelectKey a of
                         Rejects e \<Rightarrow> (Throw e, w3)
                       | NeverSettles \<Rightarrow> (Hang, w3)
                       | Resolves u \<Rightarrow> (Ok (), w3))))))"

text \<open>
  The end of the \<^verbatim>\<open>try\<close> block, once the loop has left with \<open>operation\<close>: the two
  \<^verbatim>\<open>throw\<close> statements and the final update. \<^verbatim>\<open>!downloadLink\<close> holds of
  \<^verbatim>\<open>undefined\<close> and of the empty string.
\<close>

definition video_finish :: "env \<Rightarrow> string \<Rightarrow> operation \<Rightarrow> app \<Rightarrow> unit result \<times> app" where
  "video_finish env aiMessageId operation w =
     (case op_error operation of
        Some message \<Rightarrow> (Throw (ErrorObject message), w)
      | None \<Rightarrow>
          (let downloadLink = op_uri operation in
           if downloadLink = None \<or> downloadLink = Some []
           then (Throw (ErrorObject ''Video generation failed to return a valid URL.''), w)
           else
             let videoUrl = the downloadLink @ ''&key='' @ API_KEY env
             in (Ok (),
                 update_message aiMessageId
                   (\<lambda>m. m\<lparr>m_text := [CHR 0xE2, CHR 0x9C, CHR 0x85] @ '' Your video is ready!'',
                           m_videoUrl := Some videoUrl, m_isLoading := Some False\<rparr>) w)))"

text \<open>The \<^verbatim>\<open>try\<close> block of \<^verbatim>\<open>generateVideo\<close> after the key-selection step.\<close>

definition video_job :: "env \<Rightarrow> string \<Rightarrow> string \<Rightarrow> app \<Rightarrow> unit result \<times> app" where
  "video_job env prompt aiMessageId w =
     (let w1 = emit NewGoogleGenAI w in
      case newGoogleGenAI env of
        Some e \<Rightarrow> (Throw e, w1)
      | None \<Rightarrow>
          (let w2 = update_message aiMessageId
                      (\<lambda>m. m\<lparr>m_text := [CHR 0xE2, CHR 0x8F, CHR 0xB3]
                                @ '' Generating your video... This can take a few minutes. Please be patient.''\<rparr>) w1;
               w3 = emit (GenerateVideos prompt) w2
           in case generateVideos env of
                Rejects e \<Rightarrow> (Throw e, w3)
              | NeverSettles \<Rightarrow> (Hang, w3)
              | Resolves operation \<Rightarrow>
                  (case poll_loop operation (getVideosOperation env) w3 of
                     (Throw e, w4) \<Rightarrow> (Throw e, w4)
                   | (Hang, w4) \<Rightarrow> (Hang, w4)
                   | (Ok operation', w4) \<Rightarrow> video_finish env aiMessageId operation' w4)))"

definition video_try :: "env \<Rightarrow> string \<Rightarrow> string \<Rightarrow> app \<Rightarrow> unit result \<times> app" where
  "video_try env prompt aiMessageId w =
     (case select_key env aiMessageId w of
        (Throw e, w1) \<Rightarrow> (Throw e, w1)
      | (Hang, w1) \<Rightarrow> (Hang, w1)
      | (Ok u, w1) \<Rightarrow> video_job env prompt aiMessageId w1)"

text \<open>
  The \<^verbatim>\<open>catch\<close> block of \<^verbatim>\<open>generateVideo\<close>: the text of the caught value,
  \<^verbatim>\<open>e instanceof Error ? e.message : String(e ?? "An unknown error occurred.")\<close>, and
  the update it makes.
\<close>

definition video_errorMessage :: "thrown \<Rightarrow> string" where
  "video_errorMessage e =
     (case e of
        ErrorObject message \<Rightarrow> message
      | NullOrUndefined \<Rightarrow> ''An unknown error occurred.''
      | NonError s \<Rightarrow> s)"

definition video_catch :: "string \<Rightarrow> thrown \<Rightarrow> app \<Rightarrow> app" where
  "video_catch aiMessageId e w =
     (let errorMessage = video_errorMessage e;
          userFriendlyError =
            (if includes_str errorMessage ''Requested entity was not found''
             then ''API key error. Please try selecting your key again. For more info, visit ai.google.dev/gemini-api/docs/billing''
             else ''Error: '' @ errorMessage)
      in update_message aiMessageId
           (\<lambda>m. m\<lparr>m_text := userFriendlyError, m_isLoading := Some False,
                   m_isError := Some True\<rparr>) w)"

text \<open>The head of \<^verbatim>\<open>generateVideo\<close>, before its \<^verbatim>\<open>try\<close> block: the pending message.\<close>

definition video_begin :: "env \<Rightarrow> string \<Rightarrow> app \<Rightarrow> app" where
  "video_begin env prompt w =
     append_message
       \<lparr>m_id = toString (now_ai env + 1),
        m_text = [CHR 0xF0, CHR 0x9F, CHR 0x8E, CHR 0xAC]
          @ '' Preparing to generate video for: '' @ [CHR 0x22] @ prompt @ [CHR 0x22] @ ''...'',
        m_sender = Ai, m_imagePreview = None, m_videoUrl = None,
        m_isLoading = Some True, m_streamingText = None, m_isError = None\<rparr>
       (emit (Call_generateVideo prompt) w)"

definition generateVideo :: "env \<Rightarrow> string \<Rightarrow> app \<Rightarrow> status \<times> app" where
  "generateVideo env prompt w =
     (let aiMessageId = toString (now_ai env + 1)
      in case video_try env prompt aiMessageId (video_begin env prompt w) of
           (Ok u, w2) \<Rightarrow> (Returned, w2)
         | (Throw e, w2) \<Rightarrow> (Returned, video_catch aiMessageId e w2)
         | (Hang, w2) \<Rightarrow> (Pending, w2))"

section \<open>Message Orchestrator\<close>

text \<open>
  \<^verbatim>\<open>handleSendMessage\<close>. The handler reads \<^verbatim>\<open>isLoading\<close>, \<^verbatim>\<open>input\<close>,
  \<^verbatim>\<open>imageFile\<close> and \<^verbatim>\<open>imagePreview\<close> as the component last rendered them, which
  is the state \<open>w\<close> it is called in.
\<close>

definition handleSendMessage :: "env \<Rightarrow> app \<Rightarrow> status \<times> app" where
  "handleSendMessage env w =
     (if isLoading w \<or> (trim (input w) = [] \<and> imageFile w = None) then (Returned, w)
      else
        let w1 = w\<lparr>isLoading := True, error := None\<rparr>;
            userText = trim (input w);
            w2 = append_message
                   \<lparr>m_id = toString (now_user env), m_text = userText, m_sender = User,
                    m_imagePreview = imagePreview w, m_videoUrl = None, m_isLoading = None,
                    m_streamingText = None, m_isError = None\<rparr> w1;
            w3 = removeImage (w2\<lparr>input := []\<rparr>);
            (st, w4) =
              (if startsWith (toLowerCase userText) ''/video ''
               then generateVideo env (trim (substring userText 7)) w3
               else sendChatMessage env userText (imageFile w) w3)
        in case st of
             Returned \<Rightarrow> (Returned, w4\<lparr>isLoading := False\<rparr>)
           | Pending \<Rightarrow> (Pending, w4))"

section \<open>A session\<close>

text \<open>
  What can happen to the component: the mount effect (with what the construction of the
  chat session throws, if it does), an edit of the input field, the choice of a file (with
  the object URL made for it) or of none, the removal of the staged image, a click on the
  microphone (\<^verbatim>\<open>handleToggleRecording\<close> calls the browser and sets no state), the four
  callbacks of the speech recognition, and a submission with everything the outside
  world answers while it runs.
\<close>

datatype action =
    Mount "thrown option"
  | Change string
  | ImageChange "(jsfile \<times> string) option"
  | RemoveImage
  | ToggleRecording
  | Recognition_onstart
  | Recognition_onend
  | Recognition_onerror
  | Recognition_onresult string
  | Submit env

fun step :: "action \<Rightarrow> app \<Rightarrow> app" where
  "step (Mount None) w = w\<lparr>chat := Some ()\<rparr>"
| "step (Mount (Some e)) w =
     w\<lparr>error := Some ''Failed to initialize the AI model. Please check the API key.''\<rparr>"
| "step (Change v) w = w\<lparr>input := v\<rparr>"
| "step (ImageChange None) w = w"
| "step (ImageChange (Some (f, url))) w = w\<lparr>imageFile := Some f, imagePreview := Some url\<rparr>"
| "step RemoveImage w = removeImage w"
| "step ToggleRecording w = w"
| "step Recognition_onstart w = w\<lparr>isRecording := True\<rparr>"
| "step Recognition_onend w = w\<lparr>isRecording := False\<rparr>"
| "step Recognition_onerror w = w\<lparr>isRecording := False\<rparr>"
| "step (Recognition_onresult transcript) w =
     w\<lparr>input := (if input w \<noteq> [] then input w @ '' '' @ transcript else transcript)\<rparr>"
| "step (Submit env) w = snd (handleSendMessage env w)"

fun run :: "action list \<Rightarrow> app \<Rightarrow> app" where
  "run [] w = w"
| "run (a # as) w = run as (step a w)"

text \<open>The successive values of the Conversation Store that a list of events records.\<close>

fun stores :: "event list \<Rightarrow> message list list" where
  "stores [] = []"
| "stores (SetMessages ms # es) = ms # stores es"
| "stores (e # es) = stores es"


section \<open>Notions used in the statements\<close>

text \<open>A submission is accepted when \<^verbatim>\<open>handleSendMessage\<close> does not leave at its first line.\<close>

definition accepted :: "app \<Rightarrow> bool" where
  "accepted w = (\<not> isLoading w \<and> (trim (input w) \<noteq> [] \<or> imageFile w \<noteq> None))"

text \<open>The entries of either protocol, the events of the Chat Protocol, those of the Video Protocol.\<close>

fun is_protocol_call :: "event \<Rightarrow> bool" where
  "is_protocol_call (Call_sendChatMessage p f) = True"
| "is_protocol_call (Call_generateVideo p) = True"
| "is_protocol_call e = False"

fun is_chat_event :: "event \<Rightarrow> bool" where
  "is_chat_event (Call_sendChatMessage p f) = True"
| "is_chat_event (SendMessageStream ps) = True"
| "is_chat_event e = False"

fun is_video_event :: "event \<Rightarrow> bool" where
  "is_video_event (SetMessages ms) = False"
| "is_video_event (Call_sendChatMessage p f) = False"
| "is_video_event (SendMessageStream ps) = False"
| "is_video_event e = True"

text \<open>Every event but the updates of the store: the calls that leave the component.\<close>

fun is_interaction :: "event \<Rightarrow> bool" where
  "is_interaction (SetMessages ms) = False"
| "is_interaction e = True"

text \<open>The submission of a video job, its timers and its polls.\<close>

fun is_job_event :: "event \<Rightarrow> bool" where
  "is_job_event (GenerateVideos p) = True"
| "is_job_event (SetTimeout n) = True"
| "is_job_event GetVideosOperation = True"
| "is_job_event e = False"

text \<open>The calls of the key-selection capability, the construction of the client and the submission.\<close>

fun is_key_or_submission :: "event \<Rightarrow> bool" where
  "is_key_or_submission HasSelectedApiKey = True"
| "is_key_or_submission OpenSelectKey = True"
| "is_key_or_submission NewGoogleGenAI = True"
| "is_key_or_submission (GenerateVideos p) = True"
| "is_key_or_submission e = False"

text \<open>\<open>n\<close> rounds of the polling loop: a timer of ten seconds, then one poll.\<close>

definition polling :: "nat \<Rightarrow> event list" where
  "polling n = concat (replicate n [SetTimeout 10000, GetVideosOperation])"

text \<open>
  The statuses of the job that the service reports: the answer to the submission, then
  the answers to the polls for as long as they resolve.
\<close>

fun resolved_prefix :: "'a reply list \<Rightarrow> 'a list" where
  "resolved_prefix (Resolves x # rs) = x # resolved_prefix rs"
| "resolved_prefix rs = []"

definition statuses :: "env \<Rightarrow> operation list" where
  "statuses env =
     (case generateVideos env of
        Resolves operation \<Rightarrow> operation # resolved_prefix (getVideosOperation env)
      | Rejects e \<Rightarrow> []
      | NeverSettles \<Rightarrow> [])"

text \<open>
  The key-selection step lets the job go on: there is no capability, or a key is
  selected, or none is and the selection flow returns.
\<close>

definition key_step_passes :: "env \<Rightarrow> bool" where
  "key_step_passes env =
     (case window_aistudio env of
        None \<Rightarrow> True
      | Some a \<Rightarrow>
          (case hasSelectedApiKey a of
             Resolves selected \<Rightarrow>
               selected \<or> (case openSelectKey a of Resolves u \<Rightarrow> True | Rejects e \<Rightarrow> False | NeverSettles \<Rightarrow> False)
           | Rejects e \<Rightarrow> False
           | NeverSettles \<Rightarrow> False))"

text \<open>The generation request is submitted: the step before it passes and the client is constructed.\<close>

definition submitted :: "env \<Rightarrow> bool" where
  "submitted env = (key_step_passes env \<and> newGoogleGenAI env = None)"

text \<open>A media reference is present: \<^verbatim>\<open>uri\<close> is there and is not the empty string.\<close>

definition has_media :: "operation \<Rightarrow> bool" where
  "has_media operation = (op_uri operation \<noteq> None \<and> op_uri operation \<noteq> Some [])"

text \<open>The two ways a store follows from the one before it.\<close>

definition appended :: "message list \<Rightarrow> message list \<Rightarrow> bool" where
  "appended s s' = (\<exists>m. s' = s @ [m])"

definition updated_by_id :: "message list \<Rightarrow> message list \<Rightarrow> bool" where
  "updated_by_id s s' =
     (\<exists>k. list_all2 (\<lambda>m m'. m_id m' = m_id m \<and> (m_id m \<noteq> k \<longrightarrow> m' = m)) s s')"

fun chain :: "message list \<Rightarrow> message list list \<Rightarrow> bool" where
  "chain s [] = True"
| "chain s (s' # ss) = ((appended s s' \<or> updated_by_id s s') \<and> chain s' ss)"

text \<open>
  The events of \<open>w\<close> record a history of the store that starts at \<open>s0\<close>, goes by
  appends and updates by id only, and ends at the store of \<open>w\<close>.
\<close>

definition consistent :: "message list \<Rightarrow> app \<Rightarrow> bool" where
  "consistent s0 w =
     (chain s0 (stores (trace w)) \<and> messages w = last (s0 # stores (trace w)))"

text \<open>Every value the store takes in a session that starts at \<open>init_app\<close>.\<close>

definition history :: "action list \<Rightarrow> message list list" where
  "history as = messages init_app # stores (trace (run as init_app))"

text \<open>What the view shows as streaming text of the newest message, store after store.\<close>

definition streaming_views :: "event list \<Rightarrow> string option list" where
  "streaming_views es = map (\<lambda>s. m_streamingText (last s)) (stores es)"



text \<open>The calls the key-selection step makes.\<close>

definition key_calls :: "env \<Rightarrow> event list" where
  "key_calls env =
     (case window_aistudio env of
        None \<Rightarrow> []
      | Some a \<Rightarrow>
          HasSelectedApiKey # (if hasSelectedApiKey a = Resolves False then [OpenSelectKey] else []))"

text \<open>
  The state in which the polling loop ends, from the state \<open>w\<close> in which the
  key-selection step ended, when the client is constructed.
\<close>

definition job_state :: "env \<Rightarrow> string \<Rightarrow> string \<Rightarrow> app \<Rightarrow> app" where
  "job_state env prompt k w =
     (let w3 = emit (GenerateVideos prompt)
                 (update_message k
                    (\<lambda>m. m\<lparr>m_text := [CHR 0xE2, CHR 0x8F, CHR 0xB3]
                              @ '' Generating your video... This can take a few minutes. Please be patient.''\<rparr>)
                    (emit NewGoogleGenAI w))
      in w3\<lparr>trace := trace w3
           @ polling (length (takeWhile (\<lambda>operation. \<not> op_done operation) (statuses env)))\<rparr>)"

text \<open>
  The state in which an accepted submission enters one of the two protocols: busy, with
  the user's Message appended, the input field and the staged image cleared.
\<close>

definition entered :: "env \<Rightarrow> app \<Rightarrow> app" where
  "entered env w =
     removeImage
       ((append_message
           \<lparr>m_id = toString (now_user env), m_text = trim (input w), m_sender = User,
            m_imagePreview = imagePreview w, m_videoUrl = None, m_isLoading = None,
            m_streamingText = None, m_isError = None\<rparr>
           (w\<lparr>isLoading := True, error := None\<rparr>))\<lparr>input := []\<rparr>)"

text \<open>What the protocol that an accepted submission enters returns.\<close>

definition dispatched :: "env \<Rightarrow> app \<Rightarrow> status \<times> app" where
  "dispatched env w =
     (if startsWith (toLowerCase (trim (input w))) ''/video ''
      then generateVideo env (trim (substring (trim (input w)) 7)) (entered env w)
      else sendChatMessage env (trim (input w)) (imageFile w) (entered env w))"

section \<open>Example inputs\<close>

text \<open>An environment in which nothing outside answers, and the component once its chat session exists.\<close>

definition env0 :: env where
  "env0 =
     \<lparr>now_user = 5, now_ai = 6, sendMessageStream = NeverSettles, render_after = [],
      window_aistudio = None,
      newGoogleGenAI = None, generateVideos = NeverSettles, getVideosOperation = [],
      API_KEY = ''KEY''\<rparr>"

definition app_ready :: app where
  "app_ready = init_app\<lparr>chat := Some ()\<rparr>"

text \<open>
  A chat turn that streams two chunks back to back, with no render between them, and ends;
  and a session that makes it.
\<close>

definition env_hello :: env where
  "env_hello = env0\<lparr>sendMessageStream := Resolves (Stream [''Hel'', ''lo''] Exhausted)\<rparr>"

definition session_hello :: "action list" where
  "session_hello = [Mount None, Change ''Hello'', Submit env_hello]"

text \<open>
  Video jobs: one that is polled twice and ends without a media reference, one that ends
  at once with an error and no media reference, one that ends at the first poll with a
  media reference, one whose submission is rejected with a given message, one that is
  submitted after the key-selection flow, and one for which that flow returns and the
  constructor of the client then throws.
\<close>

definition env_no_url :: env where
  "env_no_url =
     env0\<lparr>generateVideos := Resolves \<lparr>op_done = False, op_error = None, op_uri = None\<rparr>,
          getVideosOperation :=
            [Resolves \<lparr>op_done = False, op_error = None, op_uri = None\<rparr>,
             Resolves \<lparr>op_done = True, op_error = None, op_uri = None\<rparr>]\<rparr>"

definition env_job_error :: env where
  "env_job_error =
     env0\<lparr>generateVideos :=
            Resolves \<lparr>op_done = True, op_error = Some ''quota exceeded'', op_uri = None\<rparr>\<rparr>"

definition env_video_ready :: env where
  "env_video_ready =
     env0\<lparr>generateVideos := Resolves \<lparr>op_done = False, op_error = None, op_uri = None\<rparr>,
          getVideosOperation :=
            [Resolves \<lparr>op_done = True, op_error = None, op_uri = Some ''https://v/1?alt=media''\<rparr>]\<rparr>"

definition env_rejected :: "string \<Rightarrow> env" where
  "env_rejected message = env0\<lparr>generateVideos := Rejects (ErrorObject message)\<rparr>"

definition env_select_key :: env where
  "env_select_key =
     env0\<lparr>window_aistudio :=
            Some \<lparr>hasSelectedApiKey = Resolves False, openSelectKey = Resolves ()\<rparr>\<rparr>"

definition env_key_unset :: env where
  "env_key_unset = env_select_key\<lparr>newGoogleGenAI := Some (ErrorObject ''API key is missing'')\<rparr>"

section \<open>Lemmas\<close>

subsection \<open>Primitives\<close>

lemma emit_sel [simp]:
  "messages (emit e w) = messages w" "trace (emit e w) = trace w @ [e]"
  "input (emit e w) = input w" "imageFile (emit e w) = imageFile w"
  "imagePreview (emit e w) = imagePreview w" "isLoading (emit e w) = isLoading w"
  "chat (emit e w) = chat w" "error (emit e w) = error w" "isRecording (emit e w) = isRecording w"
  by (simp_all add: emit_def)

lemma setMessages_sel [simp]:
  "messages (setMessages f w) = f (messages w)"
  "trace (setMessages f w) = trace w @ [SetMessages (f (messages w))]"
  "input (setMessages f w) = input w" "imageFile (setMessages f w) = imageFile w"
  "imagePreview (setMessages f w) = imagePreview w" "isLoading (setMessages f w) = isLoading w"
  "chat (setMessages f w) = chat w" "error (setMessages f w) = error w"
  "isRecording (setMessages f w) = isRecording w"
  by (simp_all add: setMessages_def Let_def)

lemma append_message_sel [simp]:
  "messages (append_message m w) = messages w @ [m]"
  "trace (append_message m w) = trace w @ [SetMessages (messages w @ [m])]"
  "input (append_message m w) = input w" "imageFile (append_message m w) = imageFile w"
  "imagePreview (append_message m w) = imagePreview w" "isLoading (append_message m w) = isLoading w"
  "chat (append_message m w) = chat w" "error (append_message m w) = error w"
  "isRecording (append_message m w) = isRecording w"
  by (simp_all add: append_message_def)

lemma update_message_sel [simp]:
  "messages (update_message k f w) = map_by_id k f (messages w)"
  "trace (update_message k f w) = trace w @ [SetMessages (map_by_id k f (messages w))]"
  "input (update_message k f w) = input w" "imageFile (update_message k f w) = imageFile w"
  "imagePreview (update_message k f w) = imagePreview w" "isLoading (update_message k f w) = isLoading w"
  "chat (update_message k f w) = chat w" "error (update_message k f w) = error w"
  "isRecording (update_message k f w) = isRecording w"
  by (simp_all add: update_message_def)

lemma map_by_id_length [simp]: "length (map_by_id k f ms) = length ms"
  by (simp add: map_by_id_def)

lemma map_by_id_Nil_iff [simp]: "map_by_id k f ms = [] \<longleftrightarrow> ms = []"
  by (simp add: map_by_id_def)

lemma map_by_id_last [simp]:
  "ms \<noteq> [] \<Longrightarrow> last (map_by_id k f ms) = (if m_id (last ms) = k then f (last ms) else last ms)"
  by (simp add: map_by_id_def last_map)

lemma stores_append [simp]: "stores (es @ es') = stores es @ stores es'"
  by (induction es rule: stores.induct) simp_all

lemma stores_polling [simp]: "stores (polling n) = []"
  by (induction n) (simp_all add: polling_def)

lemma filter_polling_job [simp]: "filter is_job_event (polling n) = polling n"
  by (induction n) (simp_all add: polling_def)

lemma polling_Suc: "polling (Suc n) = SetTimeout 10000 # GetVideosOperation # polling n"
  by (simp add: polling_def)

subsection \<open>The polling loop\<close>

lemma poll_loop_snd:
  "snd (poll_loop operation script w) =
     w\<lparr>trace := trace w
        @ polling (length (takeWhile (\<lambda>operation. \<not> op_done operation) (operation # resolved_prefix script)))\<rparr>"
proof (induction operation script w rule: poll_loop.induct)
  case (1 operation w)
  then show ?case by (simp add: polling_def emit_def)
next
  case (2 operation r rest w)
  then show ?case
    by (cases r) (simp_all add: polling_Suc emit_def polling_def)
qed

lemma polling_0 [simp]: "polling 0 = []"
  by (simp add: polling_def)


lemma poll_loop_fst:
  "fst (poll_loop operation script w) =
     (case find op_done (operation # resolved_prefix script) of
        Some d \<Rightarrow> Ok d
      | None \<Rightarrow>
          (case drop (length (resolved_prefix script)) script of
             Rejects e # rest \<Rightarrow> Throw e
           | _ \<Rightarrow> Hang))"
proof (induction operation script w rule: poll_loop.induct)
  case (1 operation w)
  then show ?case by simp
next
  case (2 operation r rest w)
  show ?case
  proof (cases r)
    case (Resolves operation')
    with 2 show ?thesis by (simp split: option.splits)
  next
    case (Rejects e)
    then show ?thesis by (simp split: option.splits)
  next
    case NeverSettles
    then show ?thesis by (simp split: option.splits)
  qed
qed

lemma poll_loop_eq:
  "poll_loop operation script w =
     (case find op_done (operation # resolved_prefix script) of
        Some d \<Rightarrow> Ok d
      | None \<Rightarrow>
          (case drop (length (resolved_prefix script)) script of
             Rejects e # rest \<Rightarrow> Throw e
           | _ \<Rightarrow> Hang),
      w\<lparr>trace := trace w
        @ polling (length (takeWhile (\<lambda>operation. \<not> op_done operation) (operation # resolved_prefix script)))\<rparr>)"
  using poll_loop_fst[of operation script w] poll_loop_snd[of operation script w]
  by (metis prod.collapse)

subsection \<open>The video job\<close>

lemma video_finish_cases:
  "video_finish env k d w =
     (if op_error d \<noteq> None then (Throw (ErrorObject (the (op_error d))), w)
      else if \<not> has_media d
      then (Throw (ErrorObject ''Video generation failed to return a valid URL.''), w)
      else (Ok (),
            update_message k
              (\<lambda>m. m\<lparr>m_text := [CHR 0xE2, CHR 0x9C, CHR 0x85] @ '' Your video is ready!'',
                      m_videoUrl := Some (the (op_uri d) @ ''&key='' @ API_KEY env),
                      m_isLoading := Some False\<rparr>) w))"
  by (auto simp: video_finish_def has_media_def Let_def split: option.splits)

lemma select_key_fst: "(fst (select_key env k w) = Ok ()) = key_step_passes env"
  by (auto simp: select_key_def key_step_passes_def Let_def split: option.splits reply.splits)

lemma select_key_last:
  assumes "messages w \<noteq> []" "m_id (last (messages w)) = k"
  shows "messages (snd (select_key env k w)) \<noteq> []"
    and "m_id (last (messages (snd (select_key env k w)))) = k"
    and "m_videoUrl (last (messages (snd (select_key env k w)))) = m_videoUrl (last (messages w))"
  using assms by (auto simp: select_key_def Let_def split: option.splits reply.splits)


lemma video_job_ctor:
  "newGoogleGenAI env = Some e \<Longrightarrow> video_job env prompt k w = (Throw e, emit NewGoogleGenAI w)"
  by (simp add: video_job_def)

lemma video_job_done:
  assumes "newGoogleGenAI env = None" "find op_done (statuses env) = Some d"
  shows "video_job env prompt k w = video_finish env k d (job_state env prompt k w)"
proof (cases "generateVideos env")
  case (Resolves operation)
  with assms show ?thesis
    by (simp add: video_job_def poll_loop_eq statuses_def job_state_def Let_def)
next
  case (Rejects e)
  with assms show ?thesis by (simp add: statuses_def)
next
  case NeverSettles
  with assms show ?thesis by (simp add: statuses_def)
qed

lemma video_job_undone:
  assumes "newGoogleGenAI env = None" "find op_done (statuses env) = None"
  shows "snd (video_job env prompt k w) = job_state env prompt k w"
    and "fst (video_job env prompt k w) \<noteq> Ok ()"
proof -
  have "snd (video_job env prompt k w) = job_state env prompt k w
      \<and> fst (video_job env prompt k w) \<noteq> Ok ()"
  proof (cases "generateVideos env")
    case (Resolves operation)
    with assms show ?thesis
      by (simp add: video_job_def poll_loop_eq statuses_def job_state_def Let_def
          split: list.splits reply.splits)
  next
    case (Rejects e)
    with assms show ?thesis by (simp add: video_job_def statuses_def job_state_def Let_def)
  next
    case NeverSettles
    with assms show ?thesis by (simp add: video_job_def statuses_def job_state_def Let_def)
  qed
  then show "snd (video_job env prompt k w) = job_state env prompt k w"
    and "fst (video_job env prompt k w) \<noteq> Ok ()" by simp_all
qed

lemma job_state_sel [simp]:
  "messages (job_state env prompt k w) =
     map_by_id k (\<lambda>m. m\<lparr>m_text := [CHR 0xE2, CHR 0x8F, CHR 0xB3]
                              @ '' Generating your video... This can take a few minutes. Please be patient.''\<rparr>) (messages w)"
  "trace (job_state env prompt k w) =
     trace w @ [NewGoogleGenAI,
       SetMessages (map_by_id k (\<lambda>m. m\<lparr>m_text := [CHR 0xE2, CHR 0x8F, CHR 0xB3]
                              @ '' Generating your video... This can take a few minutes. Please be patient.''\<rparr>) (messages w)),
       GenerateVideos prompt]
     @ polling (length (takeWhile (\<lambda>operation. \<not> op_done operation) (statuses env)))"
  by (simp_all add: job_state_def Let_def)

subsection \<open>Histories of the store\<close>

lemma chain_snoc:
  "chain s (ss @ [s']) =
     (chain s ss \<and> (appended (last (s # ss)) s' \<or> updated_by_id (last (s # ss)) s'))"
  by (induction ss arbitrary: s) auto

lemma appended_snoc: "appended s (s @ [m])"
  by (auto simp: appended_def)

lemma updated_by_id_map:
  assumes "\<And>m. m_id (f m) = m_id m"
  shows "updated_by_id s (map_by_id k f s)"
  unfolding updated_by_id_def map_by_id_def
  by (rule exI[of _ k]) (simp add: list_all2_map2 list.rel_refl assms list_all2_same)

lemma consistent_emit:
  "stores [e] = [] \<Longrightarrow> consistent s0 w \<Longrightarrow> consistent s0 (emit e w)"
  by (simp add: consistent_def)

lemma consistent_append_message:
  "consistent s0 w \<Longrightarrow> consistent s0 (append_message m w)"
  by (simp add: consistent_def chain_snoc appended_snoc)

lemma consistent_update_message:
  "(\<And>m. m_id (f m) = m_id m) \<Longrightarrow> consistent s0 w \<Longrightarrow> consistent s0 (update_message k f w)"
  by (simp add: consistent_def chain_snoc updated_by_id_map)

lemmas consistent_intros = consistent_emit consistent_append_message consistent_update_message

subsection \<open>Key selection\<close>

lemma select_key_interactions:
  "filter is_interaction (trace (snd (select_key env k w))) =
     filter is_interaction (trace w) @ key_calls env"
  by (auto simp: select_key_def key_calls_def Let_def split: option.splits reply.splits)

lemma select_key_consistent:
  "consistent s0 w \<Longrightarrow> consistent s0 (snd (select_key env k w))"
  by (auto simp: select_key_def Let_def split: option.splits reply.splits
      intro!: consistent_intros)

subsection \<open>Every function keeps the history consistent\<close>

lemma run_queued_consistent:
  "consistent s0 w \<Longrightarrow> consistent s0 (run_queued k acc n w)"
  by (induction n arbitrary: w) (simp_all add: consistent_update_message)

lemma for_await_consistent:
  "consistent s0 w \<Longrightarrow> consistent s0 (snd (for_await k rs chunks r q acc w))"
  by (induction chunks arbitrary: r q acc w)
    (simp_all add: run_queued_consistent del: run_queued.simps)

lemma chat_catch_consistent:
  "consistent s0 w \<Longrightarrow> consistent s0 (chat_catch k e w)"
  by (simp add: chat_catch_def consistent_update_message)

lemma consistent_error [simp]: "consistent s0 (w\<lparr>error := x\<rparr>) = consistent s0 w"
  by (simp add: consistent_def)

lemma consistent_isLoading [simp]: "consistent s0 (w\<lparr>isLoading := x\<rparr>) = consistent s0 w"
  by (simp add: consistent_def)

lemma consistent_input [simp]: "consistent s0 (w\<lparr>input := x\<rparr>) = consistent s0 w"
  by (simp add: consistent_def)

lemma consistent_chat [simp]: "consistent s0 (w\<lparr>chat := x\<rparr>) = consistent s0 w"
  by (simp add: consistent_def)

lemma consistent_isRecording [simp]: "consistent s0 (w\<lparr>isRecording := x\<rparr>) = consistent s0 w"
  by (simp add: consistent_def)

lemma consistent_imageFile [simp]: "consistent s0 (w\<lparr>imageFile := x\<rparr>) = consistent s0 w"
  by (simp add: consistent_def)

lemma consistent_imagePreview [simp]: "consistent s0 (w\<lparr>imagePreview := x\<rparr>) = consistent s0 w"
  by (simp add: consistent_def)

lemma consistent_removeImage [simp]: "consistent s0 (removeImage w) = consistent s0 w"
  by (simp add: removeImage_def)

lemma sendChatMessage_consistent:
  assumes "consistent s0 w"
  shows "consistent s0 (snd (sendChatMessage env prompt file w))"
proof (cases "chat w")
  case None
  with assms show ?thesis by (simp add: sendChatMessage_def consistent_emit)
next
  case (Some h)
  let ?w2 = "emit (SendMessageStream
               ((case file of Some f \<Rightarrow> [fileToGenerativePart f] | None \<Rightarrow> [])
                @ (if prompt \<noteq> [] then [Text prompt] else [])))
             (append_message
                \<lparr>m_id = toString (now_ai env + 1), m_text = [], m_sender = Ai, m_imagePreview = None,
                 m_videoUrl = None, m_isLoading = Some True, m_streamingText = Some [],
                 m_isError = None\<rparr> (emit (Call_sendChatMessage prompt file) w))"
  have w2: "consistent s0 ?w2"
    using assms by (simp add: consistent_emit consistent_append_message)
  show ?thesis
  proof (cases "sendMessageStream env")
    case (Resolves s)
    obtain chunks fin where s: "s = Stream chunks fin" by (cases s)
    obtain a w3 where
      fa: "for_await (toString (now_ai env + 1)) (render_after env) chunks 0 0 [] ?w2 = (a, w3)"
      by (cases "for_await (toString (now_ai env + 1)) (render_after env) chunks 0 0 [] ?w2")
    have "consistent s0 w3"
      using for_await_consistent[OF w2, of "toString (now_ai env + 1)" "render_after env" chunks 0 0 "[]"]
        fa by simp
    with Some Resolves s fa show ?thesis
      by (cases fin)
        (simp_all add: sendChatMessage_def Let_def chat_catch_consistent consistent_update_message)
  next
    case (Rejects e)
    with Some w2 show ?thesis
      by (simp add: sendChatMessage_def Let_def chat_catch_consistent)
  next
    case NeverSettles
    with Some w2 show ?thesis by (simp add: sendChatMessage_def Let_def)
  qed
qed

lemma consistent_polling [simp]:
  "consistent s0 (w\<lparr>trace := trace w @ polling n\<rparr>) = consistent s0 w"
  by (simp add: consistent_def)

lemma job_state_consistent:
  "consistent s0 w \<Longrightarrow> consistent s0 (job_state env prompt k w)"
  by (simp add: consistent_def chain_snoc updated_by_id_map)

lemma video_finish_consistent:
  "consistent s0 w \<Longrightarrow> consistent s0 (snd (video_finish env k d w))"
  by (simp add: video_finish_cases consistent_update_message)

lemma video_job_consistent:
  assumes "consistent s0 w"
  shows "consistent s0 (snd (video_job env prompt k w))"
proof (cases "newGoogleGenAI env")
  case (Some e)
  with assms show ?thesis by (simp add: video_job_ctor consistent_emit)
next
  case None
  show ?thesis
  proof (cases "find op_done (statuses env)")
    case (Some d)
    with None assms show ?thesis
      by (simp add: video_job_done video_finish_consistent job_state_consistent)
  next
    case undone: None
    with None assms show ?thesis by (simp add: video_job_undone job_state_consistent)
  qed
qed

lemma video_try_eq:
  "video_try env prompt k w =
     (if key_step_passes env then video_job env prompt k (snd (select_key env k w))
      else select_key env k w)"
proof (cases "select_key env k w")
  case (Pair r w1)
  then have "(r = Ok ()) = key_step_passes env"
    using select_key_fst[of env k w] by simp
  with Pair show ?thesis by (cases r) (simp_all add: video_try_def)
qed

lemma video_try_consistent:
  "consistent s0 w \<Longrightarrow> consistent s0 (snd (video_try env prompt k w))"
  by (simp add: video_try_eq video_job_consistent select_key_consistent)

lemma video_catch_consistent:
  "consistent s0 w \<Longrightarrow> consistent s0 (video_catch k e w)"
  by (simp add: video_catch_def Let_def consistent_update_message)

lemma video_begin_consistent:
  "consistent s0 w \<Longrightarrow> consistent s0 (video_begin env prompt w)"
  by (simp add: video_begin_def consistent_append_message consistent_emit)

lemma generateVideo_eq:
  "generateVideo env prompt w =
     (case fst (video_try env prompt (toString (now_ai env + 1)) (video_begin env prompt w)) of
        Ok u \<Rightarrow> (Returned, snd (video_try env prompt (toString (now_ai env + 1)) (video_begin env prompt w)))
      | Throw e \<Rightarrow>
          (Returned,
           video_catch (toString (now_ai env + 1)) e
             (snd (video_try env prompt (toString (now_ai env + 1)) (video_begin env prompt w))))
      | Hang \<Rightarrow> (Pending, snd (video_try env prompt (toString (now_ai env + 1)) (video_begin env prompt w))))"
  by (cases "video_try env prompt (toString (now_ai env + 1)) (video_begin env prompt w)")
    (simp add: generateVideo_def Let_def split: result.splits)

lemma generateVideo_consistent:
  "consistent s0 w \<Longrightarrow> consistent s0 (snd (generateVideo env prompt w))"
  by (simp add: generateVideo_eq video_try_consistent video_begin_consistent
      video_catch_consistent split: result.splits)

lemma handleSendMessage_accepted:
  assumes "accepted w"
  shows "handleSendMessage env w =
     (let w3 = removeImage
           ((append_message
               \<lparr>m_id = toString (now_user env), m_text = trim (input w), m_sender = User,
                m_imagePreview = imagePreview w, m_videoUrl = None, m_isLoading = None,
                m_streamingText = None, m_isError = None\<rparr>
               (w\<lparr>isLoading := True, error := None\<rparr>))\<lparr>input := []\<rparr>);
          r = (if startsWith (toLowerCase (trim (input w))) ''/video ''
               then generateVideo env (trim (substring (trim (input w)) 7)) w3
               else sendChatMessage env (trim (input w)) (imageFile w) w3)
      in case fst r of
           Returned \<Rightarrow> (Returned, (snd r)\<lparr>isLoading := False\<rparr>)
         | Pending \<Rightarrow> (Pending, snd r))"
proof -
  have "\<not> (isLoading w \<or> (trim (input w) = [] \<and> imageFile w = None))"
    using assms by (auto simp: accepted_def)
  then show ?thesis
    unfolding handleSendMessage_def
    by (simp only: if_False Let_def split_beta)
qed

lemma handleSendMessage_rejected:
  "\<not> accepted w \<Longrightarrow> handleSendMessage env w = (Returned, w)"
  by (auto simp: accepted_def handleSendMessage_def)

lemma handleSendMessage_consistent:
  assumes "consistent s0 w"
  shows "consistent s0 (snd (handleSendMessage env w))"
proof (cases "accepted w")
  case False
  with assms show ?thesis by (simp add: handleSendMessage_rejected)
next
  case True
  show ?thesis
    using assms
    by (simp add: handleSendMessage_accepted[OF True] Let_def consistent_append_message
        generateVideo_consistent sendChatMessage_consistent split: status.splits)
qed

lemma step_consistent: "consistent s0 w \<Longrightarrow> consistent s0 (step a w)"
  by (induction a w rule: step.induct) (simp_all add: handleSendMessage_consistent)

lemma run_consistent: "consistent s0 w \<Longrightarrow> consistent s0 (run as w)"
  by (induction as arbitrary: w) (simp_all add: step_consistent)

lemma init_consistent: "consistent (messages init_app) init_app"
  by (simp add: consistent_def init_app_def)

lemma length_appended: "appended s s' \<Longrightarrow> length s' = Suc (length s)"
  by (auto simp: appended_def)

lemma length_updated: "updated_by_id s s' \<Longrightarrow> length s' = length s"
  by (auto simp: updated_by_id_def dest: list_all2_lengthD)

lemma chain_nonempty: "chain s ss \<Longrightarrow> s \<noteq> [] \<Longrightarrow> \<forall>t \<in> set ss. t \<noteq> []"
proof (induction ss arbitrary: s)
  case Nil
  then show ?case by simp
next
  case (Cons t ss)
  then have "length t \<ge> length s" "chain t ss"
    by (auto dest: length_appended length_updated)
  with Cons.prems have "t \<noteq> []" by auto
  with Cons.IH[OF \<open>chain t ss\<close>] show ?case by simp
qed

lemma chain_sorted: "chain s ss \<Longrightarrow> sorted (map length (s # ss))"
proof (induction ss arbitrary: s)
  case Nil
  then show ?case by simp
next
  case (Cons t ss)
  then have "length s \<le> length t" and "sorted (map length (t # ss))"
    by (auto dest: length_appended length_updated)
  then show ?case by auto
qed

lemma chain_nth:
  "chain s ss \<Longrightarrow> Suc i < length (s # ss) \<Longrightarrow>
     appended ((s # ss) ! i) ((s # ss) ! Suc i) \<or> updated_by_id ((s # ss) ! i) ((s # ss) ! Suc i)"
proof (induction ss arbitrary: s i)
  case Nil
  then show ?case by simp
next
  case (Cons t ss)
  show ?case
  proof (cases i)
    case 0
    with Cons.prems show ?thesis by simp
  next
    case (Suc j)
    with Cons.prems Cons.IH[of t j] show ?thesis by simp
  qed
qed

subsection \<open>The chat stream\<close>

lemma streaming_views_append [simp]:
  "streaming_views (es @ es') = streaming_views es @ streaming_views es'"
  by (simp add: streaming_views_def)

lemma streaming_views_Cons [simp]:
  "streaming_views [] = []"
  "streaming_views (SetMessages ms # es) = m_streamingText (last ms) # streaming_views es"
  "stores [e] = [] \<Longrightarrow> streaming_views (e # es) = streaming_views es"
  by (cases e; simp add: streaming_views_def)+














subsection \<open>The calls that leave the component\<close>

lemma filter_interaction_polling [simp]: "filter is_interaction (polling n) = polling n"
  by (induction n) (simp_all add: polling_Suc)

lemma run_queued_interactions:
  "filter is_interaction (trace (run_queued k acc n w)) = filter is_interaction (trace w)"
  by (induction n arbitrary: w) simp_all

lemma for_await_interactions:
  "filter is_interaction (trace (snd (for_await k rs chunks r q acc w)))
     = filter is_interaction (trace w)"
  by (induction chunks arbitrary: r q acc w)
    (simp_all add: run_queued_interactions del: run_queued.simps)

lemma sendChatMessage_interactions:
  "filter is_interaction (trace (snd (sendChatMessage env prompt file w))) =
     filter is_interaction (trace w)
     @ Call_sendChatMessage prompt file
     # (if chat w = None then []
        else [SendMessageStream
                ((case file of Some f \<Rightarrow> [fileToGenerativePart f] | None \<Rightarrow> [])
                 @ (if prompt \<noteq> [] then [Text prompt] else []))])"
  by (simp add: sendChatMessage_def Let_def case_prod_beta for_await_interactions chat_catch_def
      split: reply.splits stream.splits stream_end.splits)

lemma video_job_interactions:
  "filter is_interaction (trace (snd (video_job env prompt k w))) =
     filter is_interaction (trace w)
     @ NewGoogleGenAI
     # (if newGoogleGenAI env = None
        then GenerateVideos prompt
             # polling (length (takeWhile (\<lambda>operation. \<not> op_done operation) (statuses env)))
        else [])"
proof (cases "newGoogleGenAI env")
  case (Some e)
  then show ?thesis by (simp add: video_job_ctor)
next
  case None
  show ?thesis
  proof (cases "find op_done (statuses env)")
    case (Some d)
    with None show ?thesis by (simp add: video_job_done video_finish_cases)
  next
    case undone: None
    with None show ?thesis by (simp add: video_job_undone)
  qed
qed

lemma video_try_interactions:
  "filter is_interaction (trace (snd (video_try env prompt k w))) =
     filter is_interaction (trace w) @ key_calls env
     @ (if key_step_passes env
        then NewGoogleGenAI
             # (if newGoogleGenAI env = None
                then GenerateVideos prompt
                     # polling (length (takeWhile (\<lambda>operation. \<not> op_done operation) (statuses env)))
                else [])
        else [])"
  by (simp add: video_try_eq video_job_interactions select_key_interactions)

lemma generateVideo_interactions:
  "filter is_interaction (trace (snd (generateVideo env prompt w))) =
     filter is_interaction (trace w) @ Call_generateVideo prompt # key_calls env
     @ (if key_step_passes env
        then NewGoogleGenAI
             # (if newGoogleGenAI env = None
                then GenerateVideos prompt
                     # polling (length (takeWhile (\<lambda>operation. \<not> op_done operation) (statuses env)))
                else [])
        else [])"
  by (simp add: generateVideo_eq video_try_interactions video_begin_def video_catch_def Let_def
      split: result.splits)

lemma filter_via_interactions:
  assumes "\<And>e. P e \<Longrightarrow> is_interaction e"
  shows "filter P es = filter P (filter is_interaction es)"
  using assms by (auto intro: filter_cong)

lemma is_interaction_sub:
  "is_protocol_call e \<Longrightarrow> is_interaction e"
  "is_chat_event e \<Longrightarrow> is_interaction e"
  "is_video_event e \<Longrightarrow> is_interaction e"
  "is_job_event e \<Longrightarrow> is_interaction e"
  "is_key_or_submission e \<Longrightarrow> is_interaction e"
  by (cases e; simp)+

lemma filter_key_calls [simp]:
  "filter is_protocol_call (key_calls env) = []"
  "filter is_chat_event (key_calls env) = []"
  "filter is_job_event (key_calls env) = []"
  by (simp_all add: key_calls_def split: option.splits)

lemma filter_polling [simp]:
  "filter is_protocol_call (polling n) = []"
  "filter is_chat_event (polling n) = []"
  "filter is_key_or_submission (polling n) = []"
  by (induction n) (simp_all add: polling_Suc)

lemma startsWith_map_iff:
  "startsWith (map f s) x = (\<exists>p rest. s = p @ rest \<and> map f p = x)"
proof
  assume "startsWith (map f s) x"
  then have "map f (take (length x) s) = x"
    unfolding startsWith_def take_map .
  moreover have "s = take (length x) s @ drop (length x) s" by simp
  ultimately show "\<exists>p rest. s = p @ rest \<and> map f p = x" by blast
next
  assume "\<exists>p rest. s = p @ rest \<and> map f p = x"
  then obtain p rest where s: "s = p @ rest" and p: "map f p = x" by blast
  from p have "length p = length x" by (metis length_map)
  with s p show "startsWith (map f s) x"
    unfolding startsWith_def by simp
qed

lemma video_prefix_iff:
  "startsWith (toLowerCase s) ''/video '' =
     (\<exists>p rest. s = p @ rest \<and> toLowerCase p = ''/video '')"
  unfolding toLowerCase_def by (rule startsWith_map_iff)

lemma video_prefix_rest:
  assumes "s = p @ rest" "toLowerCase p = ''/video ''"
  shows "substring s 7 = rest"
proof -
  have "length p = length ''/video ''"
    using assms(2) unfolding toLowerCase_def by (metis length_map)
  then have "length p = 7" by simp
  with assms(1) show ?thesis by (simp add: substring_def)
qed

lemma removeImage_sel [simp]:
  "messages (removeImage w) = messages w" "trace (removeImage w) = trace w"
  "input (removeImage w) = input w" "isLoading (removeImage w) = isLoading w"
  "chat (removeImage w) = chat w" "error (removeImage w) = error w"
  by (simp_all add: removeImage_def)

lemma entered_sel [simp]:
  "messages (entered env w) = messages w
     @ [\<lparr>m_id = toString (now_user env), m_text = trim (input w), m_sender = User,
         m_imagePreview = imagePreview w, m_videoUrl = None, m_isLoading = None,
         m_streamingText = None, m_isError = None\<rparr>]"
  "trace (entered env w) = trace w
     @ [SetMessages (messages w
          @ [\<lparr>m_id = toString (now_user env), m_text = trim (input w), m_sender = User,
              m_imagePreview = imagePreview w, m_videoUrl = None, m_isLoading = None,
              m_streamingText = None, m_isError = None\<rparr>])]"
  "chat (entered env w) = chat w"
  by (simp_all add: entered_def)

lemma handleSendMessage_dispatched:
  assumes "accepted w"
  shows "fst (handleSendMessage env w) = fst (dispatched env w)"
    and "messages (snd (handleSendMessage env w)) = messages (snd (dispatched env w))"
    and "trace (snd (handleSendMessage env w)) = trace (snd (dispatched env w))"
    and "fst (dispatched env w) = Returned \<Longrightarrow> isLoading (snd (handleSendMessage env w)) = False"
  unfolding handleSendMessage_accepted[OF assms] Let_def dispatched_def entered_def
  by (simp_all split: status.splits)

lemma handleSendMessage_interactions:
  assumes "accepted w"
  shows "filter is_interaction (trace (snd (handleSendMessage env w))) =
     filter is_interaction (trace w)
     @ (if startsWith (toLowerCase (trim (input w))) ''/video ''
        then Call_generateVideo (trim (substring (trim (input w)) 7)) # key_calls env
             @ (if key_step_passes env
                then NewGoogleGenAI
                     # (if newGoogleGenAI env = None
                        then GenerateVideos (trim (substring (trim (input w)) 7))
                             # polling (length (takeWhile (\<lambda>operation. \<not> op_done operation) (statuses env)))
                        else [])
                else [])
        else Call_sendChatMessage (trim (input w)) (imageFile w)
             # (if chat w = None then []
                else [SendMessageStream
                        ((case imageFile w of Some f \<Rightarrow> [fileToGenerativePart f] | None \<Rightarrow> [])
                         @ (if trim (input w) \<noteq> [] then [Text (trim (input w))] else []))]))"
  unfolding handleSendMessage_dispatched(3)[OF assms] dispatched_def
  by (simp add: generateVideo_interactions sendChatMessage_interactions)

subsection \<open>The newest message during a video job\<close>

lemma video_job_last:
  assumes "messages w \<noteq> []" "m_id (last (messages w)) = k"
  shows "messages (snd (video_job env prompt k w)) \<noteq> []"
    and "m_id (last (messages (snd (video_job env prompt k w)))) = k"
    and "m_videoUrl (last (messages (snd (video_job env prompt k w)))) =
          (if fst (video_job env prompt k w) = Ok ()
           then Some (the (op_uri (the (find op_done (statuses env)))) @ ''&key='' @ API_KEY env)
           else m_videoUrl (last (messages w)))"
proof -
  have "messages (snd (video_job env prompt k w)) \<noteq> []
      \<and> m_id (last (messages (snd (video_job env prompt k w)))) = k
      \<and> m_videoUrl (last (messages (snd (video_job env prompt k w)))) =
          (if fst (video_job env prompt k w) = Ok ()
           then Some (the (op_uri (the (find op_done (statuses env)))) @ ''&key='' @ API_KEY env)
           else m_videoUrl (last (messages w)))"
  proof (cases "newGoogleGenAI env")
    case (Some e)
    with assms show ?thesis by (simp add: video_job_ctor)
  next
    case None
    show ?thesis
    proof (cases "find op_done (statuses env)")
      case (Some d)
      with None assms show ?thesis by (simp add: video_job_done video_finish_cases)
    next
      case undone: None
      with None assms show ?thesis by (simp add: video_job_undone)
    qed
  qed
  then show "messages (snd (video_job env prompt k w)) \<noteq> []"
    and "m_id (last (messages (snd (video_job env prompt k w)))) = k"
    and "m_videoUrl (last (messages (snd (video_job env prompt k w)))) =
          (if fst (video_job env prompt k w) = Ok ()
           then Some (the (op_uri (the (find op_done (statuses env)))) @ ''&key='' @ API_KEY env)
           else m_videoUrl (last (messages w)))"
    by simp_all
qed

lemma video_job_Ok:
  "(fst (video_job env prompt k w) = Ok ()) =
     (newGoogleGenAI env = None
      \<and> (\<exists>d. find op_done (statuses env) = Some d \<and> op_error d = None \<and> has_media d))"
proof (cases "newGoogleGenAI env")
  case (Some e)
  then show ?thesis by (simp add: video_job_ctor)
next
  case None
  show ?thesis
  proof (cases "find op_done (statuses env)")
    case (Some d)
    with None show ?thesis by (simp add: video_job_done video_finish_cases)
  next
    case undone: None
    with None show ?thesis by (simp add: video_job_undone)
  qed
qed

lemma video_job_no_url:
  assumes "newGoogleGenAI env = None" "find op_done (statuses env) = Some d"
    "op_error d = None" "\<not> has_media d"
  shows "fst (video_job env prompt k w) =
     Throw (ErrorObject ''Video generation failed to return a valid URL.'')"
  using assms by (simp add: video_job_done video_finish_cases)

lemma video_try_last:
  assumes "messages w \<noteq> []" "m_id (last (messages w)) = k"
  shows "messages (snd (video_try env prompt k w)) \<noteq> []"
    and "m_id (last (messages (snd (video_try env prompt k w)))) = k"
    and "m_videoUrl (last (messages (snd (video_try env prompt k w)))) =
          (if fst (video_try env prompt k w) = Ok ()
           then Some (the (op_uri (the (find op_done (statuses env)))) @ ''&key='' @ API_KEY env)
           else m_videoUrl (last (messages w)))"
  using select_key_last[OF assms, of env]
    video_job_last[OF select_key_last(1,2)[OF assms, of env], of env prompt]
    select_key_fst[of env k w]
  by (simp_all add: video_try_eq)

lemma video_try_Ok:
  "(fst (video_try env prompt k w) = Ok ()) =
     (submitted env
      \<and> (\<exists>d. find op_done (statuses env) = Some d \<and> op_error d = None \<and> has_media d))"
  using select_key_fst[of env k w]
  by (simp add: video_try_eq video_job_Ok submitted_def)

lemma video_try_no_url:
  assumes "submitted env" "find op_done (statuses env) = Some d"
    "op_error d = None" "\<not> has_media d"
  shows "fst (video_try env prompt k w) =
     Throw (ErrorObject ''Video generation failed to return a valid URL.'')"
  using assms by (simp add: video_try_eq submitted_def video_job_no_url)

lemma video_begin_sel [simp]:
  "messages (video_begin env prompt w) \<noteq> []"
  "m_id (last (messages (video_begin env prompt w))) = toString (now_ai env + 1)"
  "m_videoUrl (last (messages (video_begin env prompt w))) = None"
  by (simp_all add: video_begin_def)

lemma video_begin_isError: "m_isError (last (messages (video_begin env prompt w))) = None"
  by (simp add: video_begin_def)

lemma select_key_isError:
  assumes "messages w \<noteq> []" "m_id (last (messages w)) = k"
  shows "m_isError (last (messages (snd (select_key env k w)))) = m_isError (last (messages w))"
  using assms by (auto simp: select_key_def Let_def split: option.splits reply.splits)

lemma video_try_done:
  assumes "submitted env" "find op_done (statuses env) = Some d"
  shows "video_try env prompt k w
           = video_finish env k d (job_state env prompt k (snd (select_key env k w)))"
  using assms by (simp add: video_try_eq submitted_def video_job_done)

lemma video_catch_last:
  assumes "messages w \<noteq> []" "m_id (last (messages w)) = k"
  shows "last (messages (video_catch k e w)) =
     (last (messages w))
       \<lparr>m_text :=
          (if includes_str (video_errorMessage e) ''Requested entity was not found''
           then ''API key error. Please try selecting your key again. For more info, visit ai.google.dev/gemini-api/docs/billing''
           else ''Error: '' @ video_errorMessage e),
        m_isLoading := Some False, m_isError := Some True\<rparr>"
  using assms by (simp add: video_catch_def Let_def)

section \<open>The properties\<close>



text \<open>
  C2. Take an accepted submission and the text \<open>trim (input w)\<close>. If the text is
  \<open>p @ rest\<close> where \<open>p\<close> is \<^verbatim>\<open>/video \<close> up to the case of its letters, the
  submission enters \<^verbatim>\<open>generateVideo\<close> once, with \<open>rest\<close> trimmed, and adds no event
  of the Chat Protocol. If the text has no such head, the submission enters
  \<^verbatim>\<open>sendChatMessage\<close> once, with the text and the staged file, and adds no event of the
  Video Protocol.
\<close>

theorem submission_dispatch:
  assumes "accepted w"
  shows "(\<forall>p rest. trim (input w) = p @ rest \<and> toLowerCase p = ''/video '' \<longrightarrow>
            filter is_protocol_call (trace (snd (handleSendMessage env w)))
              = filter is_protocol_call (trace w) @ [Call_generateVideo (trim rest)]
          \<and> filter is_chat_event (trace (snd (handleSendMessage env w)))
              = filter is_chat_event (trace w))
       \<and> ((\<nexists>p rest. trim (input w) = p @ rest \<and> toLowerCase p = ''/video '') \<longrightarrow>
            filter is_protocol_call (trace (snd (handleSendMessage env w)))
              = filter is_protocol_call (trace w)
                @ [Call_sendChatMessage (trim (input w)) (imageFile w)]
          \<and> filter is_video_event (trace (snd (handleSendMessage env w)))
              = filter is_video_event (trace w))"
proof -
  let ?w' = "snd (handleSendMessage env w)"
  note ia = handleSendMessage_interactions[OF assms, of env]
  have video: "startsWith (toLowerCase (trim (input w))) ''/video ''
      \<and> substring (trim (input w)) 7 = rest"
    if "trim (input w) = p @ rest" "toLowerCase p = ''/video ''" for p rest
    using that video_prefix_iff video_prefix_rest by blast
  have chat: "\<not> startsWith (toLowerCase (trim (input w))) ''/video ''"
    if "\<nexists>p rest. trim (input w) = p @ rest \<and> toLowerCase p = ''/video ''"
    using that video_prefix_iff by blast
  have calls: "filter is_protocol_call es = filter is_protocol_call (filter is_interaction es)"
    and chats: "filter is_chat_event es = filter is_chat_event (filter is_interaction es)"
    and videos: "filter is_video_event es = filter is_video_event (filter is_interaction es)"
    for es
    by (rule filter_via_interactions, erule is_interaction_sub)+
  show ?thesis
  proof (intro conjI allI impI; (elim conjE)?)
    fix p rest
    assume pr: "trim (input w) = p @ rest" "toLowerCase p = ''/video ''"
    show "filter is_protocol_call (trace ?w')
        = filter is_protocol_call (trace w) @ [Call_generateVideo (trim rest)]"
      by (subst calls, subst (2) calls) (simp add: ia video[OF pr])
    show "filter is_chat_event (trace ?w') = filter is_chat_event (trace w)"
      by (subst chats, subst (2) chats) (simp add: ia video[OF pr])
  next
    assume no: "\<nexists>p rest. trim (input w) = p @ rest \<and> toLowerCase p = ''/video ''"
    show "filter is_protocol_call (trace ?w')
        = filter is_protocol_call (trace w) @ [Call_sendChatMessage (trim (input w)) (imageFile w)]"
      by (subst calls, subst (2) calls) (simp add: ia chat[OF no])
    show "filter is_video_event (trace ?w') = filter is_video_event (trace w)"
      by (subst videos, subst (2) videos) (simp add: ia chat[OF no])
  qed
qed

theorem submission_dispatch_witness:
  "filter is_protocol_call (trace (snd (handleSendMessage env0 (app_ready\<lparr>input := '' /Video  a cat ''\<rparr>))))
     = [Call_generateVideo ''a cat'']
   \<and> filter is_chat_event (trace (snd (handleSendMessage env0 (app_ready\<lparr>input := '' /Video  a cat ''\<rparr>))))
     = []
   \<and> filter is_protocol_call (trace (snd (handleSendMessage env0 (app_ready\<lparr>input := ''Hello''\<rparr>))))
     = [Call_sendChatMessage ''Hello'' None]
   \<and> filter is_video_event (trace (snd (handleSendMessage env0 (app_ready\<lparr>input := ''Hello''\<rparr>))))
     = []"
proof -
  have av: "accepted (app_ready\<lparr>input := '' /Video  a cat ''\<rparr>)" by code_simp
  have ac: "accepted (app_ready\<lparr>input := ''Hello''\<rparr>)" by code_simp
  have v: "trim (input (app_ready\<lparr>input := '' /Video  a cat ''\<rparr>)) = ''/Video '' @ '' a cat''"
    by code_simp
  have l: "toLowerCase ''/Video '' = ''/video ''" by code_simp
  have t: "trim '' a cat'' = ''a cat''" by code_simp
  have "\<not> startsWith (toLowerCase (trim (input (app_ready\<lparr>input := ''Hello''\<rparr>)))) ''/video ''"
    by code_simp
  then have c: "\<nexists>p rest. trim (input (app_ready\<lparr>input := ''Hello''\<rparr>)) = p @ rest
      \<and> toLowerCase p = ''/video ''"
    using video_prefix_iff by blast
  have h: "trim (input (app_ready\<lparr>input := ''Hello''\<rparr>)) = ''Hello''" by code_simp
  have e: "trace (app_ready\<lparr>input := x\<rparr>) = []" "imageFile (app_ready\<lparr>input := x\<rparr>) = None" for x
    by (simp_all add: app_ready_def init_app_def)
  from submission_dispatch[OF av, of env0] v l
  have "filter is_protocol_call (trace (snd (handleSendMessage env0 (app_ready\<lparr>input := '' /Video  a cat ''\<rparr>))))
      = filter is_protocol_call (trace (app_ready\<lparr>input := '' /Video  a cat ''\<rparr>))
        @ [Call_generateVideo (trim '' a cat'')]
    \<and> filter is_chat_event (trace (snd (handleSendMessage env0 (app_ready\<lparr>input := '' /Video  a cat ''\<rparr>))))
      = filter is_chat_event (trace (app_ready\<lparr>input := '' /Video  a cat ''\<rparr>))"
    by blast
  moreover from submission_dispatch[OF ac, of env0] c
  have "filter is_protocol_call (trace (snd (handleSendMessage env0 (app_ready\<lparr>input := ''Hello''\<rparr>))))
      = filter is_protocol_call (trace (app_ready\<lparr>input := ''Hello''\<rparr>))
        @ [Call_sendChatMessage (trim (input (app_ready\<lparr>input := ''Hello''\<rparr>)))
             (imageFile (app_ready\<lparr>input := ''Hello''\<rparr>))]
    \<and> filter is_video_event (trace (snd (handleSendMessage env0 (app_ready\<lparr>input := ''Hello''\<rparr>))))
      = filter is_video_event (trace (app_ready\<lparr>input := ''Hello''\<rparr>))"
    by blast
  ultimately show ?thesis
    unfolding t h e by simp
qed

text \<open>
  C3. A call of \<^verbatim>\<open>handleSendMessage\<close> while a submission is pending (\<open>isLoading\<close>),
  or with a text that is empty once trimmed and no staged attachment, does nothing: it
  returns the state it was called in, so the store keeps its length and no event, hence
  no remote interaction, is added.
\<close>

theorem rejected_submission_is_noop:
  assumes "isLoading w \<or> (trim (input w) = [] \<and> imageFile w = None)"
  shows "handleSendMessage env w = (Returned, w)
       \<and> length (messages (snd (handleSendMessage env w))) = length (messages w)
       \<and> trace (snd (handleSendMessage env w)) = trace w"
  using assms by (simp add: handleSendMessage_def)

theorem rejected_submission_is_noop_witness:
  "handleSendMessage env0 (app_ready\<lparr>input := ''Hello'', isLoading := True\<rparr>)
     = (Returned, app_ready\<lparr>input := ''Hello'', isLoading := True\<rparr>)
   \<and> handleSendMessage env0 (app_ready\<lparr>input := ''  ''\<rparr>) = (Returned, app_ready\<lparr>input := ''  ''\<rparr>)"
proof -
  have busy: "isLoading (app_ready\<lparr>input := ''Hello'', isLoading := True\<rparr>)
      \<or> (trim (input (app_ready\<lparr>input := ''Hello'', isLoading := True\<rparr>)) = []
          \<and> imageFile (app_ready\<lparr>input := ''Hello'', isLoading := True\<rparr>) = None)"
    by simp
  have "trim ''  '' = []" by code_simp
  then have blank: "isLoading (app_ready\<lparr>input := ''  ''\<rparr>)
      \<or> (trim (input (app_ready\<lparr>input := ''  ''\<rparr>)) = []
          \<and> imageFile (app_ready\<lparr>input := ''  ''\<rparr>) = None)"
    by (simp add: app_ready_def init_app_def)
  show ?thesis
    using rejected_submission_is_noop[OF busy, of env0] rejected_submission_is_noop[OF blank, of env0]
    by simp
qed

text \<open>
  C4, at the input of Scenario C of the specification. The chat stream delivers
  \<^verbatim>\<open>"Hel"\<close> and then throws \<^verbatim>\<open>Error("boom")\<close>. The \<^verbatim>\<open>catch\<close> block sets
  the text to the error description, \<^verbatim>\<open>isError\<close> and \<^verbatim>\<open>isLoading: false\<close>, and
  leaves \<^verbatim>\<open>streamingText\<close> at \<^verbatim>\<open>"Hel"\<close>; the success path clears it.
\<close>

theorem chat_failure_keeps_streaming_text:
  "m_streamingText (last (messages (snd (handleSendMessage
      (env0\<lparr>sendMessageStream := Resolves (Stream [''Hel''] (Fails (ErrorObject ''boom'')))\<rparr>)
      (app_ready\<lparr>input := ''Hello''\<rparr>))))) = Some ''Hel''
   \<and> m_text (last (messages (snd (handleSendMessage
      (env0\<lparr>sendMessageStream := Resolves (Stream [''Hel''] (Fails (ErrorObject ''boom'')))\<rparr>)
      (app_ready\<lparr>input := ''Hello''\<rparr>))))) = ''Sorry, I ran into an error: boom''
   \<and> m_isError (last (messages (snd (handleSendMessage
      (env0\<lparr>sendMessageStream := Resolves (Stream [''Hel''] (Fails (ErrorObject ''boom'')))\<rparr>)
      (app_ready\<lparr>input := ''Hello''\<rparr>))))) = Some True
   \<and> m_isLoading (last (messages (snd (handleSendMessage
      (env0\<lparr>sendMessageStream := Resolves (Stream [''Hel''] (Fails (ErrorObject ''boom'')))\<rparr>)
      (app_ready\<lparr>input := ''Hello''\<rparr>))))) = Some False"
  by code_simp

text \<open>
  C5, as the code has it. An accepted chat submission made while the chat session is
  \<^verbatim>\<open>null\<close> appends the user's Message and nothing else: \<^verbatim>\<open>sendChatMessage\<close>
  records \<^verbatim>\<open>"Chat session is not initialized."\<close> in the separate \<open>error\<close> cell of
  the component and returns, without an assistant Message, without a call to the chat
  service and without a retry; the submission then ends and \<open>isLoading\<close> is false again.
\<close>

theorem chat_without_session:
  assumes "accepted w"
    and "\<not> startsWith (toLowerCase (trim (input w))) ''/video ''"
    and "chat w = None"
  shows "handleSendMessage env w =
     (Returned,
      w\<lparr>messages := messages w
          @ [\<lparr>m_id = toString (now_user env), m_text = trim (input w), m_sender = User,
              m_imagePreview = imagePreview w, m_videoUrl = None, m_isLoading = None,
              m_streamingText = None, m_isError = None\<rparr>],
        input := [], imageFile := None, imagePreview := None, isLoading := False,
        error := Some ''Chat session is not initialized.'',
        trace := trace w
          @ [SetMessages (messages w
               @ [\<lparr>m_id = toString (now_user env), m_text = trim (input w), m_sender = User,
                   m_imagePreview = imagePreview w, m_videoUrl = None, m_isLoading = None,
                   m_streamingText = None, m_isError = None\<rparr>]),
             Call_sendChatMessage (trim (input w)) (imageFile w)]\<rparr>)"
  using assms(2,3)
  by (simp add: handleSendMessage_accepted[OF assms(1)] sendChatMessage_def Let_def
      removeImage_def emit_def append_message_def setMessages_def)

theorem chat_without_session_witness:
  "fst (handleSendMessage env0 (init_app\<lparr>input := ''Hello''\<rparr>)) = Returned
   \<and> length (messages (snd (handleSendMessage env0 (init_app\<lparr>input := ''Hello''\<rparr>)))) = 2
   \<and> isLoading (snd (handleSendMessage env0 (init_app\<lparr>input := ''Hello''\<rparr>))) = False"
proof -
  have a: "accepted (init_app\<lparr>input := ''Hello''\<rparr>)" by code_simp
  have b: "\<not> startsWith (toLowerCase (trim (input (init_app\<lparr>input := ''Hello''\<rparr>)))) ''/video ''"
    by code_simp
  have c: "chat (init_app\<lparr>input := ''Hello''\<rparr>) = None" by code_simp
  show ?thesis
    unfolding chat_without_session[OF a b c, of env0]
    by (simp add: init_app_def)
qed

text \<open>
  Such a submission from the initial state: the store ends with the greeting and the
  user's Message only, neither of them failed.
\<close>

theorem chat_without_session_counterexample:
  "messages (snd (handleSendMessage env0 (init_app\<lparr>input := ''Hello''\<rparr>)))
     = [init_message,
        \<lparr>m_id = ''5'', m_text = ''Hello'', m_sender = User, m_imagePreview = None,
         m_videoUrl = None, m_isLoading = None, m_streamingText = None, m_isError = None\<rparr>]
   \<and> error (snd (handleSendMessage env0 (init_app\<lparr>input := ''Hello''\<rparr>)))
     = Some ''Chat session is not initialized.''"
  by code_simp

text \<open>
  C6. For every run of \<^verbatim>\<open>generateVideo\<close>, among the events it adds, the submission,
  the timers and the polls are these: nothing when the request is not submitted; otherwise
  the submission first and then, for each status reported before the first one with
  \<^verbatim>\<open>done=true\<close>, one timer of 10000 ms followed by one poll, and nothing after (no
  status at all, hence no poll, when the submission gets no response). The newest Message,
  which is the one of the job, ends with a \<^verbatim>\<open>videoUrl\<close> if and only if the request is
  submitted and the first status with \<^verbatim>\<open>done=true\<close> has no error and has a media
  reference. What that status decides, when the request is submitted:

    \<^item> no error and a media reference: the function returns and the Message ends with the
      reference followed by \<^verbatim>\<open>&key=\<close> and the key as its \<^verbatim>\<open>videoUrl\<close>, with the
      text that announces the video, \<^verbatim>\<open>isLoading: false\<close> and no \<^verbatim>\<open>isError\<close>;

    \<^item> no error and no media reference: the function returns and the Message ends with
      \<^verbatim>\<open>isError\<close>, \<^verbatim>\<open>isLoading: false\<close>, no \<^verbatim>\<open>videoUrl\<close> and the text
      \<^verbatim>\<open>Error: Video generation failed to return a valid URL.\<close>;

    \<^item> an error: the function returns and the Message ends with \<^verbatim>\<open>isError\<close>,
      \<^verbatim>\<open>isLoading: false\<close>, no \<^verbatim>\<open>videoUrl\<close> and the text made of the message of
      that error, whether there is a media reference or not.
\<close>

theorem video_job_polling:
  "filter is_job_event (trace (snd (generateVideo env prompt w)))
     = filter is_job_event (trace w)
       @ (if submitted env
          then GenerateVideos prompt
               # polling (length (takeWhile (\<lambda>operation. \<not> op_done operation) (statuses env)))
          else [])
   \<and> (m_videoUrl (last (messages (snd (generateVideo env prompt w)))) \<noteq> None)
     = (submitted env
        \<and> (\<exists>d. find op_done (statuses env) = Some d \<and> op_error d = None \<and> has_media d))
   \<and> (\<forall>d. submitted env \<and> find op_done (statuses env) = Some d
            \<and> op_error d = None \<and> has_media d \<longrightarrow>
          fst (generateVideo env prompt w) = Returned
        \<and> m_videoUrl (last (messages (snd (generateVideo env prompt w))))
            = Some (the (op_uri d) @ ''&key='' @ API_KEY env)
        \<and> m_isError (last (messages (snd (generateVideo env prompt w)))) = None
        \<and> m_isLoading (last (messages (snd (generateVideo env prompt w)))) = Some False
        \<and> m_text (last (messages (snd (generateVideo env prompt w))))
            = [CHR 0xE2, CHR 0x9C, CHR 0x85] @ '' Your video is ready!'')
   \<and> (\<forall>d. submitted env \<and> find op_done (statuses env) = Some d
            \<and> op_error d = None \<and> \<not> has_media d \<longrightarrow>
          fst (generateVideo env prompt w) = Returned
        \<and> m_videoUrl (last (messages (snd (generateVideo env prompt w)))) = None
        \<and> m_isError (last (messages (snd (generateVideo env prompt w)))) = Some True
        \<and> m_isLoading (last (messages (snd (generateVideo env prompt w)))) = Some False
        \<and> m_text (last (messages (snd (generateVideo env prompt w))))
            = ''Error: Video generation failed to return a valid URL.'')
   \<and> (\<forall>d message. submitted env \<and> find op_done (statuses env) = Some d
            \<and> op_error d = Some message \<longrightarrow>
          fst (generateVideo env prompt w) = Returned
        \<and> m_videoUrl (last (messages (snd (generateVideo env prompt w)))) = None
        \<and> m_isError (last (messages (snd (generateVideo env prompt w)))) = Some True
        \<and> m_isLoading (last (messages (snd (generateVideo env prompt w)))) = Some False
        \<and> m_text (last (messages (snd (generateVideo env prompt w))))
            = (if includes_str message ''Requested entity was not found''
               then ''API key error. Please try selecting your key again. For more info, visit ai.google.dev/gemini-api/docs/billing''
               else ''Error: '' @ message))"
proof -
  define k where "k = toString (now_ai env + 1)"
  define r where "r = video_try env prompt k (video_begin env prompt w)"
  have b: "messages (video_begin env prompt w) \<noteq> []"
    "m_id (last (messages (video_begin env prompt w))) = k"
    by (simp_all add: k_def)
  note l = video_try_last[OF b, of env prompt, folded r_def]
  have gv: "generateVideo env prompt w =
      (case fst r of
         Ok u \<Rightarrow> (Returned, snd r)
       | Throw e \<Rightarrow> (Returned, video_catch k e (snd r))
       | Hang \<Rightarrow> (Pending, snd r))"
    unfolding r_def k_def by (rule generateVideo_eq)
  have ok: "(fst r = Ok ()) =
      (submitted env
       \<and> (\<exists>d. find op_done (statuses env) = Some d \<and> op_error d = None \<and> has_media d))"
    unfolding r_def by (rule video_try_Ok)
  have events: "filter is_job_event (trace (snd (generateVideo env prompt w)))
     = filter is_job_event (trace w)
       @ (if submitted env
          then GenerateVideos prompt
               # polling (length (takeWhile (\<lambda>operation. \<not> op_done operation) (statuses env)))
          else [])"
    by (subst filter_via_interactions[of is_job_event], erule is_interaction_sub,
        subst (2) filter_via_interactions[of is_job_event], erule is_interaction_sub)
      (simp add: generateVideo_interactions submitted_def)
  have url: "(m_videoUrl (last (messages (snd (generateVideo env prompt w)))) \<noteq> None)
     = (submitted env
        \<and> (\<exists>d. find op_done (statuses env) = Some d \<and> op_error d = None \<and> has_media d))"
  proof (cases "fst r")
    case (Ok u)
    with l ok show ?thesis by (simp add: gv)
  next
    case (Throw e)
    with l ok show ?thesis by (simp add: gv video_catch_last)
  next
    case Hang
    with l ok show ?thesis by (simp add: gv)
  qed
  have ready: "fst (generateVideo env prompt w) = Returned
        \<and> m_videoUrl (last (messages (snd (generateVideo env prompt w))))
            = Some (the (op_uri d) @ ''&key='' @ API_KEY env)
        \<and> m_isError (last (messages (snd (generateVideo env prompt w)))) = None
        \<and> m_isLoading (last (messages (snd (generateVideo env prompt w)))) = Some False
        \<and> m_text (last (messages (snd (generateVideo env prompt w))))
            = [CHR 0xE2, CHR 0x9C, CHR 0x85] @ '' Your video is ready!''"
    if "submitted env" "find op_done (statuses env) = Some d" "op_error d = None" "has_media d"
    for d
  proof -
    let ?w1 = "snd (select_key env k (video_begin env prompt w))"
    have s: "messages ?w1 \<noteq> []" "m_id (last (messages ?w1)) = k"
      using b by (rule select_key_last)+
    have f: "m_isError (last (messages ?w1)) = None"
      using select_key_isError[OF b, of env] by (simp add: video_begin_isError)
    have "r = video_finish env k d (job_state env prompt k ?w1)"
      unfolding r_def using that(1,2) by (rule video_try_done)
    with that(3,4) s f show ?thesis
      by (simp add: gv video_finish_cases)
  qed
  have no_url: "fst (generateVideo env prompt w) = Returned
        \<and> m_videoUrl (last (messages (snd (generateVideo env prompt w)))) = None
        \<and> m_isError (last (messages (snd (generateVideo env prompt w)))) = Some True
        \<and> m_isLoading (last (messages (snd (generateVideo env prompt w)))) = Some False
        \<and> m_text (last (messages (snd (generateVideo env prompt w))))
            = ''Error: Video generation failed to return a valid URL.''"
    if "submitted env" "find op_done (statuses env) = Some d" "op_error d = None" "\<not> has_media d"
    for d
  proof -
    have "fst r = Throw (ErrorObject ''Video generation failed to return a valid URL.'')"
      unfolding r_def using that by (rule video_try_no_url)
    moreover have "\<not> includes_str ''Video generation failed to return a valid URL.''
        ''Requested entity was not found''"
      by code_simp
    ultimately show ?thesis
      using l by (simp add: gv video_catch_last video_errorMessage_def)
  qed
  have failed: "fst (generateVideo env prompt w) = Returned
        \<and> m_videoUrl (last (messages (snd (generateVideo env prompt w)))) = None
        \<and> m_isError (last (messages (snd (generateVideo env prompt w)))) = Some True
        \<and> m_isLoading (last (messages (snd (generateVideo env prompt w)))) = Some False
        \<and> m_text (last (messages (snd (generateVideo env prompt w))))
            = (if includes_str message ''Requested entity was not found''
               then ''API key error. Please try selecting your key again. For more info, visit ai.google.dev/gemini-api/docs/billing''
               else ''Error: '' @ message)"
    if "submitted env" "find op_done (statuses env) = Some d" "op_error d = Some message"
    for d message
  proof -
    have "fst r = Throw (ErrorObject message)"
      unfolding r_def using that by (simp add: video_try_done video_finish_cases)
    then show ?thesis
      using l by (simp add: gv video_catch_last video_errorMessage_def)
  qed
  from events url ready no_url failed show ?thesis by blast
qed

theorem video_job_polling_witness:
  "filter is_job_event (trace (snd (generateVideo env_no_url ''a cat'' app_ready)))
     = [GenerateVideos ''a cat'', SetTimeout 10000, GetVideosOperation,
        SetTimeout 10000, GetVideosOperation]
   \<and> m_videoUrl (last (messages (snd (generateVideo env_no_url ''a cat'' app_ready)))) = None
   \<and> fst (generateVideo env_no_url ''a cat'' app_ready) = Returned
   \<and> m_isError (last (messages (snd (generateVideo env_no_url ''a cat'' app_ready)))) = Some True
   \<and> m_text (last (messages (snd (generateVideo env_no_url ''a cat'' app_ready))))
       = ''Error: Video generation failed to return a valid URL.''
   \<and> filter is_job_event (trace (snd (generateVideo env_video_ready ''a cat'' app_ready)))
     = [GenerateVideos ''a cat'', SetTimeout 10000, GetVideosOperation]
   \<and> m_videoUrl (last (messages (snd (generateVideo env_video_ready ''a cat'' app_ready))))
       = Some ''https://v/1?alt=media&key=KEY''
   \<and> m_isError (last (messages (snd (generateVideo env_video_ready ''a cat'' app_ready)))) = None
   \<and> m_isLoading (last (messages (snd (generateVideo env_video_ready ''a cat'' app_ready))))
       = Some False
   \<and> filter is_job_event (trace (snd (generateVideo env_job_error ''a cat'' app_ready)))
     = [GenerateVideos ''a cat'']
   \<and> m_videoUrl (last (messages (snd (generateVideo env_job_error ''a cat'' app_ready)))) = None
   \<and> m_isError (last (messages (snd (generateVideo env_job_error ''a cat'' app_ready)))) = Some True
   \<and> m_isLoading (last (messages (snd (generateVideo env_job_error ''a cat'' app_ready))))
       = Some False
   \<and> m_text (last (messages (snd (generateVideo env_job_error ''a cat'' app_ready))))
       = ''Error: quota exceeded''"
proof -
  have s: "submitted env_no_url" "submitted env_video_ready" "submitted env_job_error"
    by code_simp+
  have f: "find op_done (statuses env_no_url)
      = Some \<lparr>op_done = True, op_error = None, op_uri = None\<rparr>" by code_simp
  have f': "find op_done (statuses env_video_ready)
      = Some \<lparr>op_done = True, op_error = None, op_uri = Some ''https://v/1?alt=media''\<rparr>"
    by code_simp
  have f'': "find op_done (statuses env_job_error)
      = Some \<lparr>op_done = True, op_error = Some ''quota exceeded'', op_uri = None\<rparr>"
    by code_simp
  have m: "\<not> has_media \<lparr>op_done = True, op_error = None, op_uri = None\<rparr>" by code_simp
  have m': "has_media \<lparr>op_done = True, op_error = None, op_uri = Some ''https://v/1?alt=media''\<rparr>"
    by code_simp
  have i: "\<not> includes_str ''quota exceeded'' ''Requested entity was not found''" by code_simp
  have n: "polling (length (takeWhile (\<lambda>operation. \<not> op_done operation) (statuses env_no_url)))
      = [SetTimeout 10000, GetVideosOperation, SetTimeout 10000, GetVideosOperation]"
    by code_simp
  have n': "polling (length (takeWhile (\<lambda>operation. \<not> op_done operation) (statuses env_video_ready)))
      = [SetTimeout 10000, GetVideosOperation]"
    by code_simp
  have n'': "polling (length (takeWhile (\<lambda>operation. \<not> op_done operation) (statuses env_job_error)))
      = []"
    by code_simp
  have t: "filter is_job_event (trace app_ready) = []" by code_simp
  have key: "API_KEY env_video_ready = ''KEY''" by code_simp
  have no_url: "filter is_job_event (trace (snd (generateVideo env_no_url ''a cat'' app_ready)))
       = [GenerateVideos ''a cat'', SetTimeout 10000, GetVideosOperation,
          SetTimeout 10000, GetVideosOperation]
     \<and> m_videoUrl (last (messages (snd (generateVideo env_no_url ''a cat'' app_ready)))) = None
     \<and> fst (generateVideo env_no_url ''a cat'' app_ready) = Returned
     \<and> m_isError (last (messages (snd (generateVideo env_no_url ''a cat'' app_ready)))) = Some True
     \<and> m_text (last (messages (snd (generateVideo env_no_url ''a cat'' app_ready))))
         = ''Error: Video generation failed to return a valid URL.''"
    using video_job_polling[of env_no_url "''a cat''" app_ready] s(1) f m
    unfolding n t by auto
  have ready: "filter is_job_event (trace (snd (generateVideo env_video_ready ''a cat'' app_ready)))
       = [GenerateVideos ''a cat'', SetTimeout 10000, GetVideosOperation]
     \<and> m_videoUrl (last (messages (snd (generateVideo env_video_ready ''a cat'' app_ready))))
         = Some ''https://v/1?alt=media&key=KEY''
     \<and> m_isError (last (messages (snd (generateVideo env_video_ready ''a cat'' app_ready)))) = None
     \<and> m_isLoading (last (messages (snd (generateVideo env_video_ready ''a cat'' app_ready))))
         = Some False"
    using video_job_polling[of env_video_ready "''a cat''" app_ready] s(2) f' m'
    unfolding n' t key by auto
  have failed: "filter is_job_event (trace (snd (generateVideo env_job_error ''a cat'' app_ready)))
       = [GenerateVideos ''a cat'']
     \<and> m_videoUrl (last (messages (snd (generateVideo env_job_error ''a cat'' app_ready)))) = None
     \<and> m_isError (last (messages (snd (generateVideo env_job_error ''a cat'' app_ready)))) = Some True
     \<and> m_isLoading (last (messages (snd (generateVideo env_job_error ''a cat'' app_ready))))
         = Some False
     \<and> m_text (last (messages (snd (generateVideo env_job_error ''a cat'' app_ready))))
         = ''Error: quota exceeded''"
    using video_job_polling[of env_job_error "''a cat''" app_ready] s(3) f'' i
    unfolding n'' t by auto
  from no_url ready failed show ?thesis by simp
qed

text \<open>
  C7, as the code has it. The substring the code looks for is
  \<^verbatim>\<open>Requested entity was not found\<close>: whenever the \<^verbatim>\<open>try\<close> block of
  \<^verbatim>\<open>generateVideo\<close> throws \<open>e\<close>, the function returns and the Message of the job
  ends with the hint about the API key if the text of \<open>e\<close> contains that substring,
  with \<^verbatim>\<open>Error: \<close> followed by the text of \<open>e\<close> otherwise, and in both cases with
  \<^verbatim>\<open>isError\<close> and \<^verbatim>\<open>isLoading: false\<close>.
\<close>

theorem video_failure_text:
  assumes "fst (video_try env prompt (toString (now_ai env + 1)) (video_begin env prompt w)) = Throw e"
  shows "fst (generateVideo env prompt w) = Returned
       \<and> m_text (last (messages (snd (generateVideo env prompt w))))
           = (if includes_str (video_errorMessage e) ''Requested entity was not found''
              then ''API key error. Please try selecting your key again. For more info, visit ai.google.dev/gemini-api/docs/billing''
              else ''Error: '' @ video_errorMessage e)
       \<and> m_isError (last (messages (snd (generateVideo env prompt w)))) = Some True
       \<and> m_isLoading (last (messages (snd (generateVideo env prompt w)))) = Some False"
proof -
  have b: "messages (video_begin env prompt w) \<noteq> []"
    "m_id (last (messages (video_begin env prompt w))) = toString (now_ai env + 1)"
    by simp_all
  note l = video_try_last(1,2)[OF b, of env prompt]
  show ?thesis
    using assms by (simp add: generateVideo_eq video_catch_last[OF l])
qed

theorem video_failure_text_witness:
  "m_text (last (messages (snd (generateVideo (env_rejected ''Requested entity was not found.'') ''a cat'' app_ready))))
     = ''API key error. Please try selecting your key again. For more info, visit ai.google.dev/gemini-api/docs/billing''
   \<and> m_text (last (messages (snd (generateVideo (env_rejected ''quota exceeded'') ''a cat'' app_ready))))
     = ''Error: quota exceeded''
   \<and> m_isError (last (messages (snd (generateVideo (env_rejected ''quota exceeded'') ''a cat'' app_ready))))
     = Some True
   \<and> m_isLoading (last (messages (snd (generateVideo (env_rejected ''quota exceeded'') ''a cat'' app_ready))))
     = Some False"
proof -
  have a: "fst (video_try (env_rejected ''Requested entity was not found.'') ''a cat''
               (toString (now_ai (env_rejected ''Requested entity was not found.'') + 1))
               (video_begin (env_rejected ''Requested entity was not found.'') ''a cat'' app_ready))
      = Throw (ErrorObject ''Requested entity was not found.'')"
    by code_simp
  have b: "fst (video_try (env_rejected ''quota exceeded'') ''a cat''
               (toString (now_ai (env_rejected ''quota exceeded'') + 1))
               (video_begin (env_rejected ''quota exceeded'') ''a cat'' app_ready))
      = Throw (ErrorObject ''quota exceeded'')"
    by code_simp
  have ia: "includes_str (video_errorMessage (ErrorObject ''Requested entity was not found.''))
      ''Requested entity was not found''" by code_simp
  have ib: "\<not> includes_str (video_errorMessage (ErrorObject ''quota exceeded''))
      ''Requested entity was not found''" by code_simp
  have m: "video_errorMessage (ErrorObject ''quota exceeded'') = ''quota exceeded''"
    by (simp add: video_errorMessage_def)
  from video_failure_text[OF a] video_failure_text[OF b] ia ib show ?thesis
    unfolding m by simp
qed

text \<open>
  A job whose submission is rejected with the message \<^verbatim>\<open>entity not found\<close>: the
  text contains that substring, and the Message ends with the generic
  \<^verbatim>\<open>Error: entity not found\<close>.
\<close>

theorem video_failure_text_counterexample:
  "includes_str ''entity not found'' ''entity not found''
   \<and> generateVideos (env_rejected ''entity not found'') = Rejects (ErrorObject ''entity not found'')
   \<and> m_text (last (messages (snd (generateVideo (env_rejected ''entity not found'') ''a cat'' app_ready))))
       = ''Error: entity not found''
   \<and> m_isError (last (messages (snd (generateVideo (env_rejected ''entity not found'') ''a cat'' app_ready))))
       = Some True"
  by code_simp

text \<open>
  C8. Whatever happens to the component in a session, each value of the Conversation
  Store follows from the one before it by the append of one Message or by an update in
  place of the Messages of one id; none is ever deleted, so the length of the store never
  decreases, from the initial store to the store the session ends in.
\<close>

theorem store_only_appends_or_updates:
  "(\<forall>i. Suc i < length (history as) \<longrightarrow>
        appended (history as ! i) (history as ! Suc i)
      \<or> updated_by_id (history as ! i) (history as ! Suc i))
   \<and> sorted (map length (history as))
   \<and> last (history as) = messages (run as init_app)"
proof -
  have c: "consistent (messages init_app) (run as init_app)"
    by (rule run_consistent[OF init_consistent])
  then have ch: "chain (messages init_app) (stores (trace (run as init_app)))"
    and la: "messages (run as init_app) = last (messages init_app # stores (trace (run as init_app)))"
    by (simp_all add: consistent_def)
  show ?thesis
    unfolding history_def
    using chain_nth[OF ch] chain_sorted[OF ch] la by simp
qed

theorem store_only_appends_or_updates_witness:
  "map length (history session_hello) = [1, 2, 3, 3, 3, 3]
   \<and> sorted (map length (history session_hello))
   \<and> (length (history session_hello ! Suc 0) = Suc (length (history session_hello ! 0))
      \<or> length (history session_hello ! Suc 0) = length (history session_hello ! 0))"
proof -
  have len: "map length (history session_hello) = [1, 2, 3, 3, 3, 3]"
    by code_simp
  have "length (history session_hello) = 6" by code_simp
  then have lt: "Suc 0 < length (history session_hello)" by simp
  from store_only_appends_or_updates[of session_hello] lt
  have "appended (history session_hello ! 0) (history session_hello ! Suc 0)
      \<or> updated_by_id (history session_hello ! 0) (history session_hello ! Suc 0)"
    and "sorted (map length (history session_hello))"
    by blast+
  with len show ?thesis
    by (auto dest: length_appended length_updated)
qed

text \<open>
  C9. Before any action, and still after the mount effect, the Conversation Store holds
  exactly one Message: the greeting of the assistant, with the id \<^verbatim>\<open>init\<close>, the
  sender \<^verbatim>\<open>ai\<close>, the text of the greeting and \<^verbatim>\<open>isLoading: false\<close>, and nothing
  else set. Every value the store takes in any session, and the store any session ends
  in, is non-empty.
\<close>

theorem store_starts_with_greeting_and_is_never_empty:
  "history [] =
     [[\<lparr>m_id = ''init'',
        m_text = ''Hello! I'm Aura, your multimodal AI assistant. I can chat, understand images, and create videos. Try asking me something, or type `/video a cat playing a futuristic piano` to see what I can do!'',
        m_sender = Ai, m_imagePreview = None, m_videoUrl = None, m_isLoading = Some False,
        m_streamingText = None, m_isError = None\<rparr>]]
   \<and> history [Mount c] = history []
   \<and> messages init_app = last (history [])
   \<and> (\<forall>s \<in> set (history as). s \<noteq> [])
   \<and> messages (run as init_app) \<noteq> []"
proof -
  have c: "consistent (messages init_app) (run as init_app)"
    by (rule run_consistent[OF init_consistent])
  then have ch: "chain (messages init_app) (stores (trace (run as init_app)))"
    and la: "messages (run as init_app) = last (messages init_app # stores (trace (run as init_app)))"
    by (simp_all add: consistent_def)
  have ne: "messages init_app \<noteq> []" by (simp add: init_app_def)
  have all: "\<forall>s \<in> set (history as). s \<noteq> []"
    using chain_nonempty[OF ch ne] ne by (simp add: history_def)
  have "last (history as) \<in> set (history as)"
    by (simp add: history_def)
  with all la have last: "messages (run as init_app) \<noteq> []"
    by (simp add: history_def)
  have start: "history [] =
     [[\<lparr>m_id = ''init'',
        m_text = ''Hello! I'm Aura, your multimodal AI assistant. I can chat, understand images, and create videos. Try asking me something, or type `/video a cat playing a futuristic piano` to see what I can do!'',
        m_sender = Ai, m_imagePreview = None, m_videoUrl = None, m_isLoading = Some False,
        m_streamingText = None, m_isError = None\<rparr>]]"
    by (simp add: history_def init_app_def init_message_def)
  have mount: "history [Mount c] = history []"
    by (cases c) (simp_all add: history_def init_app_def)
  have init: "messages init_app = last (history [])"
    by (simp add: history_def init_app_def)
  from start mount init all last show ?thesis by blast
qed

theorem store_starts_with_greeting_and_is_never_empty_witness:
  "history session_hello ! 5 \<noteq> [] \<and> messages (run session_hello init_app) \<noteq> []"
proof -
  have "length (history session_hello) = 6" by code_simp
  then have "history session_hello ! 5 \<in> set (history session_hello)" by simp
  with store_starts_with_greeting_and_is_never_empty[of None session_hello] show ?thesis
    by blast
qed

text \<open>
  C10, as the code has it. When the page has the key-selection capability and
  \<^verbatim>\<open>hasSelectedApiKey\<close> answers false, the calls that \<^verbatim>\<open>generateVideo\<close> makes to
  that capability, to the constructor of the client and to submit the request are, in
  order: one \<^verbatim>\<open>hasSelectedApiKey\<close> and one \<^verbatim>\<open>openSelectKey\<close>, whether the selection
  flow returns, fails or never returns; then, only when the flow returns, the construction
  of the client; then, only when that construction does not throw, the submission of the
  request. \<^verbatim>\<open>hasSelectedApiKey\<close> is not called a second time.
\<close>

theorem key_selection_then_submission:
  assumes "window_aistudio env = Some a"
    and "hasSelectedApiKey a = Resolves False"
  shows "filter is_key_or_submission (trace (snd (generateVideo env prompt w)))
     = filter is_key_or_submission (trace w)
       @ HasSelectedApiKey # OpenSelectKey
       # (case openSelectKey a of
            Resolves u \<Rightarrow>
              NewGoogleGenAI # (if newGoogleGenAI env = None then [GenerateVideos prompt] else [])
          | Rejects e \<Rightarrow> []
          | NeverSettles \<Rightarrow> [])"
proof -
  have k: "key_calls env = [HasSelectedApiKey, OpenSelectKey]"
    and p: "key_step_passes env = (\<exists>u. openSelectKey a = Resolves u)"
    using assms by (simp_all add: key_calls_def key_step_passes_def split: reply.splits)
  have "filter is_key_or_submission (trace (snd (generateVideo env prompt w)))
     = filter is_key_or_submission (trace w)
       @ HasSelectedApiKey # OpenSelectKey
       # (if key_step_passes env
          then NewGoogleGenAI # (if newGoogleGenAI env = None then [GenerateVideos prompt] else [])
          else [])"
    by (subst filter_via_interactions[of is_key_or_submission], erule is_interaction_sub,
        subst (2) filter_via_interactions[of is_key_or_submission], erule is_interaction_sub)
      (simp add: generateVideo_interactions k)
  then show ?thesis
    by (simp add: p split: reply.splits)
qed

theorem key_selection_then_submission_witness:
  "filter is_key_or_submission (trace (snd (generateVideo env_select_key ''a cat'' app_ready)))
     = [HasSelectedApiKey, OpenSelectKey, NewGoogleGenAI, GenerateVideos ''a cat'']"
proof -
  have a: "window_aistudio env_select_key
      = Some \<lparr>hasSelectedApiKey = Resolves False, openSelectKey = Resolves ()\<rparr>"
    by (simp add: env_select_key_def)
  have b: "hasSelectedApiKey \<lparr>hasSelectedApiKey = Resolves False, openSelectKey = Resolves ()\<rparr>
      = Resolves False" by simp
  have d: "newGoogleGenAI env_select_key = None" by code_simp
  have t: "filter is_key_or_submission (trace app_ready) = []" by code_simp
  from key_selection_then_submission[OF a b, of "''a cat''" app_ready] show ?thesis
    unfolding d t by simp
qed

text \<open>
  A video submission on a page that has the key-selection capability, with no key
  selected: the selection flow returns, the constructor of the client then throws, and
  the function returns with the failed Message without having submitted any request.
\<close>

theorem key_selection_then_submission_counterexample:
  "window_aistudio env_key_unset
     = Some \<lparr>hasSelectedApiKey = Resolves False, openSelectKey = Resolves ()\<rparr>
   \<and> filter is_key_or_submission (trace (snd (generateVideo env_key_unset ''a cat'' app_ready)))
     = [HasSelectedApiKey, OpenSelectKey, NewGoogleGenAI]
   \<and> fst (generateVideo env_key_unset ''a cat'' app_ready) = Returned
   \<and> m_isError (last (messages (snd (generateVideo env_key_unset ''a cat'' app_ready))))
     = Some True
   \<and> m_text (last (messages (snd (generateVideo env_key_unset ''a cat'' app_ready))))
     = ''Error: API key is missing''"
  by code_simp

end
